theory Spec2Isabelle
  imports Main
begin

section \<open>The resolved schema AST\<close>

text \<open>
  The policy generator (class \<open>PolicyGenerator\<close>) consumes a resolved schema AST whose type
  declarations live in the language package. Only the parts the generator inspects are
  modelled. A cross-reference of the AST (\<open>expr.target.ref\<close>, \<open>expr.$resolvedType.decl\<close>)
  is a link, not a child node; the link to a data model field is summarised by the name of
  the field, the name of the data model that contains it and the names of the attributes it
  carries, which is all that \<open>canCheckCreateBasedOnInput\<close> reads through the link.
  Declaration names are unique in a schema, so \<open>ref.$container === model\<close> is comparison of
  the container's name with the model's name.
\<close>

datatype type_decl = DataModelDecl string | EnumDecl string

record field_link =
  fl_name :: string
  fl_container :: string
  fl_attributes :: "string list"

datatype reference_target = DataModelFieldTarget field_link | OtherTarget string

datatype literal = StringLiteral string | NumberLiteral string | BooleanLiteral bool

datatype expr =
    LiteralExpr literal
  | NullExpr
  | ThisExpr
  | ReferenceExpr reference_target "type_decl option"
  | MemberAccessExpr expr string
  | InvocationExpr string "expr list"
  | UnaryExpr string expr
  | BinaryExpr string expr expr
  | ArrayExpr "expr list"

record attribute_arg =
  arg_name :: "string option"
  arg_value :: expr

record attribute =
  attr_decl :: string
  attr_args :: "attribute_arg list"

record data_model_field =
  f_name :: string
  f_attributes :: "attribute list"

record data_model =
  dm_name :: string
  dm_fields :: "data_model_field list"
  dm_attributes :: "attribute list"

datatype schema_declaration = DataModelD data_model | EnumD string | OtherD string

record zmodel =
  declarations :: "schema_declaration list"

datatype policy_operation_kind = Read | Create | Update | PostUpdate | Delete

datatype rule_family = Allow | Deny

datatype subject = OfModel data_model | OfField data_model_field

fun kind_text :: "policy_operation_kind \<Rightarrow> string" where
  "kind_text Read = ''read''"
| "kind_text Create = ''create''"
| "kind_text Update = ''update''"
| "kind_text PostUpdate = ''postUpdate''"
| "kind_text Delete = ''delete''"

text \<open>
  \<open>streamAst(rule)\<close> of the langium library: the node itself and all nodes contained in
  it, parents first. The argument wrappers of an invocation are nodes too, but they are none
  of the expression kinds the generator tests for, so the stream lists expressions only.
\<close>

fun streamAst :: "expr \<Rightarrow> expr list" where
  "streamAst (MemberAccessExpr operand m) = MemberAccessExpr operand m # streamAst operand"
| "streamAst (InvocationExpr f as) = InvocationExpr f as # concat (map streamAst as)"
| "streamAst (UnaryExpr opr e) = UnaryExpr opr e # streamAst e"
| "streamAst (BinaryExpr opr l r) = BinaryExpr opr l r # streamAst l @ streamAst r"
| "streamAst (ArrayExpr items) = ArrayExpr items # concat (map streamAst items)"
| "streamAst e = [e]"

fun isThisExpr :: "expr \<Rightarrow> bool" where
  "isThisExpr ThisExpr = True"
| "isThisExpr _ = False"

fun isMemberAccessExpr :: "expr \<Rightarrow> bool" where
  "isMemberAccessExpr (MemberAccessExpr _ _) = True"
| "isMemberAccessExpr _ = False"

text \<open>
  Modelled from the spec: \<open>isAuthInvocation\<close> of the SDK package, which is not among the
  sources; the spec calls the node "function invocation including \<open>auth()\<close>".
\<close>

fun isAuthInvocation :: "expr \<Rightarrow> bool" where
  "isAuthInvocation (InvocationExpr f _) = (f = ''auth'')"
| "isAuthInvocation _ = False"

text \<open>
  Modelled from the spec: \<open>hasAttribute\<close> of the SDK package, which is not among the
  sources; "a field carrying \<open>@default\<close>" is a field one of whose attributes has that name.
\<close>

definition hasAttribute :: "field_link \<Rightarrow> string \<Rightarrow> bool" where
  "hasAttribute ref a = (a \<in> set (fl_attributes ref))"

section \<open>Plugin options\<close>

datatype option_value = OBool bool | OString string | ONumber int | OObject

record plugin_options =
  opt_generatePermissionChecker :: "option_value option"
  opt_preserveTsFiles :: "option_value option"
  opt_output :: "option_value option"

text \<open>JavaScript truthiness of an option that may be absent (\<open>!!this.options.output\<close>).\<close>

fun truthy :: "option_value option \<Rightarrow> bool" where
  "truthy None = False"
| "truthy (Some (OBool b)) = b"
| "truthy (Some (OString s)) = (s \<noteq> [])"
| "truthy (Some (ONumber n)) = (n \<noteq> 0)"
| "truthy (Some OObject) = True"

section \<open>The code writer and the generated source file\<close>

text \<open>
  The \<open>CodeBlockWriter\<close> is modelled by the calls made on it: \<open>write\<close>, \<open>writeLine\<close>,
  and \<open>block\<close>/\<open>inlineBlock\<close> with the calls made inside the block. Layout (braces,
  indentation, line ends) is the library's and is a function of this tree.
\<close>

datatype wr = Write string | WriteLine string | Block "wr list" | InlineBlock "wr list"

type_synonym writer = "wr list"

record function_decl =
  fn_name :: string
  fn_returnType :: string
  fn_parameters :: "(string \<times> string) list"
  fn_statements :: "string list"

datatype sf_item =
    Statements string
  | ImportDeclaration "string list" string
  | FunctionDeclaration function_decl
  | VariableStatement string string string writer

type_synonym source_file = "sf_item list"

record project =
  sourceFiles :: "string \<Rightarrow> source_file option"
  saved :: "string \<Rightarrow> source_file option"

datatype error = ShouldNotHappen | HelperThrew

type_synonym gen_state = "writer \<times> source_file"

definition writer_write :: "string \<Rightarrow> gen_state \<Rightarrow> error + gen_state" where
  "writer_write s st = Inr (fst st @ [Write s], snd st)"

definition writer_writeLine :: "string \<Rightarrow> gen_state \<Rightarrow> error + gen_state" where
  "writer_writeLine s st = Inr (fst st @ [WriteLine s], snd st)"

definition writer_inlineBlock :: "(gen_state \<Rightarrow> error + gen_state) \<Rightarrow> gen_state \<Rightarrow> error + gen_state" where
  "writer_inlineBlock body st =
     (case body ([], snd st) of
        Inl e \<Rightarrow> Inl e
      | Inr inner \<Rightarrow> Inr (fst st @ [InlineBlock (fst inner)], snd inner))"

definition writer_block :: "(gen_state \<Rightarrow> error + gen_state) \<Rightarrow> gen_state \<Rightarrow> error + gen_state" where
  "writer_block body st =
     (case body ([], snd st) of
        Inl e \<Rightarrow> Inl e
      | Inr inner \<Rightarrow> Inr (fst st @ [Block (fst inner)], snd inner))"

text \<open>Sequencing of two generator steps; a throw of the first ends the run.\<close>

definition andThen :: "('s \<Rightarrow> error + 's) \<Rightarrow> ('s \<Rightarrow> error + 's) \<Rightarrow> 's \<Rightarrow> error + 's" where
  "andThen f g st = (case f st of Inl e \<Rightarrow> Inl e | Inr st' \<Rightarrow> g st')"

text \<open>A \<open>for ... of\<close> loop over a list, threading the state.\<close>

fun forEach :: "('a \<Rightarrow> 's \<Rightarrow> error + 's) \<Rightarrow> 'a list \<Rightarrow> 's \<Rightarrow> error + 's" where
  "forEach f [] st = Inr st"
| "forEach f (x # xs) st = (case f x st of Inl e \<Rightarrow> Inl e | Inr st' \<Rightarrow> forEach f xs st')"

definition addFunction :: "function_decl \<Rightarrow> source_file \<Rightarrow> source_file" where
  "addFunction f sf = sf @ [FunctionDeclaration f]"

text \<open>\<open>Array.prototype.join\<close>.\<close>

fun join :: "string \<Rightarrow> string list \<Rightarrow> string" where
  "join sep [] = []"
| "join sep [x] = x"
| "join sep (x # y # ys) = x @ sep @ join sep (y # ys)"

fun bool_text :: "bool \<Rightarrow> string" where
  "bool_text True = ''true''"
| "bool_text False = ''false''"

text \<open>
  The select shape returned by \<open>generateSelectForRules\<close> (a field name maps to \<open>true\<close> or
  to a nested shape) and its \<open>JSON.stringify\<close>; field names are identifiers and need no
  escaping.
\<close>

datatype select = SelTrue | SelObj "(string \<times> select) list"

fun JSON_stringify :: "select \<Rightarrow> string" where
  "JSON_stringify SelTrue = ''true''"
| "JSON_stringify (SelObj kvs) =
     ''{'' @ join '','' (map (\<lambda>kv. [CHR 0x22] @ fst kv @ [CHR 0x22] @ '':'' @ JSON_stringify (snd kv)) kvs) @ ''}''"

section \<open>Collaborators of the generator that are not among the sources\<close>

text \<open>
  The generator calls helpers of the SDK package, of its own \<open>utils\<close> module, of the
  expression transformers and of small libraries. Their code is not among the sources, so
  they are parameters of the model: every theorem below holds for any helpers, and what a
  theorem needs of a helper is a hypothesis. A helper that emits code can throw a
  generation error (an unsupported expression, a missing auth model): it returns \<open>None\<close>
  then. The optional flag of \<open>getPolicyExpressions\<close> (override rules only) and of
  \<open>generateSelectForRules\<close> (auth context) is \<open>False\<close> where the call leaves it out.
  \<open>transform\<close> is \<open>TypeScriptExpressionTransformer.transform\<close> as the generator
  configures it (access policy context, field references read from \<open>input\<close>);
  \<open>transformRules\<close> is \<open>ConstraintTransformer.transformRules\<close> with auth accessor
  \<open>user\<close>. \<open>analyzePolicies\<close> gives, per operation kind, a constant boolean or nothing.
\<close>

record sdk =
  getPolicyExpressions :: "subject \<Rightarrow> rule_family \<Rightarrow> policy_operation_kind \<Rightarrow> bool \<Rightarrow> expr list"
  analyzePolicies :: "data_model \<Rightarrow> policy_operation_kind \<Rightarrow> bool option"
  generateSelectForRules :: "expr list \<Rightarrow> bool \<Rightarrow> select option"
  generateQueryGuardFunction :: "source_file \<Rightarrow> data_model \<Rightarrow> policy_operation_kind \<Rightarrow> expr list
     \<Rightarrow> expr list \<Rightarrow> data_model_field option \<Rightarrow> bool \<Rightarrow> (function_decl \<times> source_file) option"
  generateNormalizedAuthRef :: "data_model \<Rightarrow> expr list \<Rightarrow> expr list \<Rightarrow> string list option"
  transform :: "expr \<Rightarrow> string option"
  transformRules :: "expr list \<Rightarrow> expr list \<Rightarrow> string option"
  isForeignKeyField :: "field_link \<Rightarrow> bool"
  getDataModels :: "zmodel \<Rightarrow> data_model list"
  isEnumReferenced :: "zmodel \<Rightarrow> string \<Rightarrow> bool"
  getPrismaClientImportSpec :: "string \<Rightarrow> plugin_options \<Rightarrow> string"
  hasValidationAttributes :: "data_model \<Rightarrow> bool"
  lowerCaseFirst :: "string \<Rightarrow> string"
  RUNTIME_PACKAGE :: string
  path_join :: "string \<Rightarrow> string \<Rightarrow> string"

definition helper :: "'a option \<Rightarrow> error + 'a" where
  "helper r = (case r of None \<Rightarrow> Inl HelperThrew | Some v \<Rightarrow> Inr v)"

text \<open>\<open>rules.map((rule) => transformer.transform(rule))\<close>: the first throw ends the map.\<close>

definition transformAll :: "sdk \<Rightarrow> expr list \<Rightarrow> string list option" where
  "transformAll env rules = those (map (transform env) rules)"

section \<open>Model-level definitions\<close>

fun isDataModel :: "type_decl option \<Rightarrow> bool" where
  "isDataModel (Some (DataModelDecl _)) = True"
| "isDataModel _ = False"

text \<open>The test that \<open>canCheckCreateBasedOnInput\<close> applies to every node of a rule.\<close>

fun canCheckNode :: "sdk \<Rightarrow> data_model \<Rightarrow> expr \<Rightarrow> bool" where
  "canCheckNode env model ThisExpr = False"
| "canCheckNode env model (ReferenceExpr target resolvedType) =
     (if isDataModel resolvedType then False
      else if (case target of
                 DataModelFieldTarget ref \<Rightarrow>
                   fl_container ref = dm_name model \<and> hasAttribute ref ''@default''
               | OtherTarget _ \<Rightarrow> False) then False
      else if (case target of
                 DataModelFieldTarget ref \<Rightarrow> isForeignKeyField env ref
               | OtherTarget _ \<Rightarrow> False) then False
      else True)"
| "canCheckNode env model _ = True"

definition canCheckCreateBasedOnInput :: "sdk \<Rightarrow> data_model \<Rightarrow> expr list \<Rightarrow> expr list \<Rightarrow> bool" where
  "canCheckCreateBasedOnInput env model allows denies =
     list_all (\<lambda>rule. list_all (canCheckNode env model) (streamAst rule)) (allows @ denies)"

text \<open>
  The statement written by the writer function of \<open>generateCreateInputCheckerFunction\<close>.
  The deny part \<open>expr\<close> is \<open>undefined\<close> without deny rules, otherwise a non-empty (truthy)
  string.
\<close>

definition createInputCheckerReturn :: "sdk \<Rightarrow> expr list \<Rightarrow> expr list \<Rightarrow> error + string" where
  "createInputCheckerReturn env allows denies =
     (if length allows = 0 then Inr ''return false;''
      else
        (case (if length denies > 0
               then (case helper (transformAll env denies) of
                       Inl e \<Rightarrow> Inl e
                     | Inr ds \<Rightarrow> Inr (Some (''!('' @ join '' || '' ds @ '')'')))
               else Inr None) of
           Inl e \<Rightarrow> Inl e
         | Inr expr \<Rightarrow>
             (case helper (transformAll env allows) of
                Inl e \<Rightarrow> Inl e
              | Inr as \<Rightarrow>
                  (let allowStmt = join '' || '' as in
                   Inr (''return '' @
                     (case expr of
                        Some d \<Rightarrow> d @ '' && ('' @ allowStmt @ '')''
                      | None \<Rightarrow> allowStmt))))))"

definition generateCreateInputCheckerFunction ::
  "sdk \<Rightarrow> data_model \<Rightarrow> expr list \<Rightarrow> expr list \<Rightarrow> source_file \<Rightarrow> error + function_decl \<times> source_file" where
  "generateCreateInputCheckerFunction env model allows denies sourceFile =
     (case helper (generateNormalizedAuthRef env model allows denies) of
        Inl e \<Rightarrow> Inl e
      | Inr statements \<Rightarrow>
          (case createInputCheckerReturn env allows denies of
             Inl e \<Rightarrow> Inl e
           | Inr ret \<Rightarrow>
               (let func = \<lparr> fn_name = dm_name model @ ''_create_input'',
                             fn_returnType = ''boolean'',
                             fn_parameters = [(''input'', ''any''), (''context'', ''QueryContext'')],
                             fn_statements = statements @ [ret] \<rparr>
                in Inr (func, addFunction func sourceFile))))"

definition writeCreateInputChecker :: "sdk \<Rightarrow> data_model \<Rightarrow> gen_state \<Rightarrow> error + gen_state" where
  "writeCreateInputChecker env model st =
     (let allows = getPolicyExpressions env (OfModel model) Allow Create False;
          denies = getPolicyExpressions env (OfModel model) Deny Create False
      in if canCheckCreateBasedOnInput env model allows denies
         then (case generateCreateInputCheckerFunction env model allows denies (snd st) of
                 Inl e \<Rightarrow> Inl e
               | Inr r \<Rightarrow> writer_write (''inputChecker: '' @ fn_name (fst r) @ '','') (fst st, snd r))
         else Inr st)"

definition writePostUpdatePreValueSelector :: "sdk \<Rightarrow> data_model \<Rightarrow> gen_state \<Rightarrow> error + gen_state" where
  "writePostUpdatePreValueSelector env model st =
     (let allows = getPolicyExpressions env (OfModel model) Allow PostUpdate False;
          denies = getPolicyExpressions env (OfModel model) Deny PostUpdate False
      in case generateSelectForRules env (allows @ denies) False of
           Some preValueSelect \<Rightarrow>
             writer_writeLine (''preUpdateSelector: '' @ JSON_stringify preValueSelect @ '','') st
         | None \<Rightarrow> Inr st)"

definition writePolicyGuard ::
  "sdk \<Rightarrow> data_model \<Rightarrow> policy_operation_kind \<Rightarrow> (policy_operation_kind \<Rightarrow> bool option)
     \<Rightarrow> expr list \<Rightarrow> expr list \<Rightarrow> gen_state \<Rightarrow> error + gen_state" where
  "writePolicyGuard env model kind policies allows denies st =
     (if kind = Update \<and> length allows = 0 then
        (if length (getPolicyExpressions env (OfModel model) Allow PostUpdate False) = 0
         then writer_write ''guard: false,'' st
         else writer_write ''guard: true,'' st)
      else if kind = PostUpdate \<and> length allows = 0 \<and> length denies = 0 then
        writer_write ''guard: true,'' st
      else
        (case policies kind of
           Some b \<Rightarrow> writer_write (''guard: '' @ bool_text b @ '','') st
         | None \<Rightarrow>
             (case helper (generateQueryGuardFunction env (snd st) model kind allows denies None False) of
                Inl e \<Rightarrow> Inl e
              | Inr r \<Rightarrow> writer_write (''guard: '' @ fn_name (fst r) @ '','') (fst st, snd r))))"

definition generatePermissionCheckerFunction ::
  "sdk \<Rightarrow> data_model \<Rightarrow> string \<Rightarrow> expr list \<Rightarrow> expr list \<Rightarrow> source_file \<Rightarrow> error + function_decl \<times> source_file" where
  "generatePermissionCheckerFunction env model kind allows denies sourceFile =
     (case helper (generateNormalizedAuthRef env model allows denies) of
        Inl e \<Rightarrow> Inl e
      | Inr statements \<Rightarrow>
          (case helper (transformRules env allows denies) of
             Inl e \<Rightarrow> Inl e
           | Inr transformed \<Rightarrow>
               (let func = \<lparr> fn_name = dm_name model @ ''$checker$'' @ kind,
                             fn_returnType = ''CheckerConstraint'',
                             fn_parameters = [(''context'', ''CheckerContext'')],
                             fn_statements = statements @ [''return '' @ transformed @ '';''] \<rparr>
                in Inr (func, addFunction func sourceFile))))"

definition writePermissionChecker ::
  "plugin_options \<Rightarrow> sdk \<Rightarrow> data_model \<Rightarrow> policy_operation_kind \<Rightarrow> (policy_operation_kind \<Rightarrow> bool option)
     \<Rightarrow> expr list \<Rightarrow> expr list \<Rightarrow> gen_state \<Rightarrow> error + gen_state" where
  "writePermissionChecker options env model kind policies allows denies st =
     (if opt_generatePermissionChecker options \<noteq> Some (OBool True) then Inr st
      else
        (case policies kind of
           Some b \<Rightarrow> writer_write (''permissionChecker: '' @ bool_text b @ '','') st
         | None \<Rightarrow>
             (if kind = Update \<and> length allows = 0 then
                (if length (getPolicyExpressions env (OfModel model) Allow PostUpdate False) = 0
                 then writer_write ''permissionChecker: false,'' st
                 else writer_write ''permissionChecker: true,'' st)
              else
                (case generatePermissionCheckerFunction env model (kind_text kind) allows denies (snd st) of
                   Inl e \<Rightarrow> Inl e
                 | Inr r \<Rightarrow>
                     writer_write (''permissionChecker: '' @ fn_name (fst r) @ '','') (fst st, snd r)))))"

definition writeCommonModelDef ::
  "plugin_options \<Rightarrow> sdk \<Rightarrow> data_model \<Rightarrow> policy_operation_kind \<Rightarrow> (policy_operation_kind \<Rightarrow> bool option)
     \<Rightarrow> gen_state \<Rightarrow> error + gen_state" where
  "writeCommonModelDef options env model kind policies st =
     (let allows = getPolicyExpressions env (OfModel model) Allow kind False;
          denies = getPolicyExpressions env (OfModel model) Deny kind False
      in andThen (writePolicyGuard env model kind policies allows denies)
           (\<lambda>st'. if kind \<noteq> PostUpdate
                   then writePermissionChecker options env model kind policies allows denies st'
                   else Inr st') st)"

text \<open>Statements in sequence.\<close>

definition steps :: "('s \<Rightarrow> error + 's) list \<Rightarrow> 's \<Rightarrow> error + 's" where
  "steps fs st = forEach (\<lambda>f. f) fs st"

definition writeModelReadDef ::
  "plugin_options \<Rightarrow> sdk \<Rightarrow> data_model \<Rightarrow> (policy_operation_kind \<Rightarrow> bool option) \<Rightarrow> gen_state \<Rightarrow> error + gen_state" where
  "writeModelReadDef options env model policies =
     steps [writer_write ''read:'',
            writer_inlineBlock (writeCommonModelDef options env model Read policies),
            writer_writeLine '','']"

definition writeModelCreateDef ::
  "plugin_options \<Rightarrow> sdk \<Rightarrow> data_model \<Rightarrow> (policy_operation_kind \<Rightarrow> bool option) \<Rightarrow> gen_state \<Rightarrow> error + gen_state" where
  "writeModelCreateDef options env model policies =
     steps [writer_write ''create:'',
            writer_inlineBlock
              (steps [writeCommonModelDef options env model Create policies,
                      writeCreateInputChecker env model]),
            writer_writeLine '','']"

definition writeModelUpdateDef ::
  "plugin_options \<Rightarrow> sdk \<Rightarrow> data_model \<Rightarrow> (policy_operation_kind \<Rightarrow> bool option) \<Rightarrow> gen_state \<Rightarrow> error + gen_state" where
  "writeModelUpdateDef options env model policies =
     steps [writer_write ''update:'',
            writer_inlineBlock (writeCommonModelDef options env model Update policies),
            writer_writeLine '','']"

definition writeModelPostUpdateDef ::
  "plugin_options \<Rightarrow> sdk \<Rightarrow> data_model \<Rightarrow> (policy_operation_kind \<Rightarrow> bool option) \<Rightarrow> gen_state \<Rightarrow> error + gen_state" where
  "writeModelPostUpdateDef options env model policies =
     steps [writer_write ''postUpdate:'',
            writer_inlineBlock
              (steps [writeCommonModelDef options env model PostUpdate policies,
                      writePostUpdatePreValueSelector env model]),
            writer_writeLine '','']"

definition writeModelDeleteDef ::
  "plugin_options \<Rightarrow> sdk \<Rightarrow> data_model \<Rightarrow> (policy_operation_kind \<Rightarrow> bool option) \<Rightarrow> gen_state \<Rightarrow> error + gen_state" where
  "writeModelDeleteDef options env model policies =
     steps [writer_write ''delete:'',
            writer_inlineBlock (writeCommonModelDef options env model Delete policies)]"

definition writeModelLevelDefs :: "plugin_options \<Rightarrow> sdk \<Rightarrow> data_model \<Rightarrow> gen_state \<Rightarrow> error + gen_state" where
  "writeModelLevelDefs options env model =
     (let policies = analyzePolicies env model
      in steps [writer_write ''modelLevel:'',
                writer_inlineBlock
                  (steps [writeModelReadDef options env model policies,
                          writeModelCreateDef options env model policies,
                          writeModelUpdateDef options env model policies,
                          writeModelPostUpdateDef options env model policies,
                          writeModelDeleteDef options env model policies]),
                writer_writeLine '',''])"

section \<open>Field-level definitions\<close>

text \<open>
  A \<open>Record<string, string>\<close> keeps its keys in insertion order (field names are
  identifiers, never integer-like keys); assigning to a key that is present replaces the
  value in place.
\<close>

fun record_set :: "(string \<times> string) list \<Rightarrow> string \<Rightarrow> string \<Rightarrow> (string \<times> string) list" where
  "record_set [] k v = [(k, v)]"
| "record_set (kv # kvs) k v = (if fst kv = k then (k, v) # kvs else kv # record_set kvs k v)"

text \<open>
  The statement written by the writer function of \<open>generateFieldReadCheckerFunction\<close>;
  the deny rules are transformed first, as the source does.
\<close>

definition fieldReadCheckerReturn :: "sdk \<Rightarrow> expr list \<Rightarrow> expr list \<Rightarrow> error + string" where
  "fieldReadCheckerReturn env allows denies =
     (case (if length denies > 0
            then (case helper (transformAll env denies) of
                    Inl e \<Rightarrow> Inl e
                  | Inr ds \<Rightarrow> Inr (Some (''!('' @ join '' || '' ds @ '')'')))
            else Inr None) of
        Inl e \<Rightarrow> Inl e
      | Inr denyStmt \<Rightarrow>
          (case (if length allows > 0
                 then (case helper (transformAll env allows) of
                         Inl e \<Rightarrow> Inl e
                       | Inr as \<Rightarrow> Inr (Some (''('' @ join '' || '' as @ '')'')))
                 else Inr None) of
             Inl e \<Rightarrow> Inl e
           | Inr allowStmt \<Rightarrow>
               (case denyStmt of
                  Some d \<Rightarrow>
                    (case allowStmt of
                       Some a \<Rightarrow> Inr (''return '' @ d @ '' && '' @ a)
                     | None \<Rightarrow> Inr (''return '' @ d))
                | None \<Rightarrow>
                    (case allowStmt of
                       Some a \<Rightarrow> Inr (''return '' @ a)
                     | None \<Rightarrow> Inl ShouldNotHappen))))"

text \<open>
  \<open>field.$container\<close> is the data model whose fields the caller iterates; the model
  passes it as \<open>model\<close>.
\<close>

definition generateFieldReadCheckerFunction ::
  "sdk \<Rightarrow> data_model \<Rightarrow> source_file \<Rightarrow> data_model_field \<Rightarrow> expr list \<Rightarrow> expr list
     \<Rightarrow> error + function_decl \<times> source_file" where
  "generateFieldReadCheckerFunction env model sourceFile field allows denies =
     (case helper (generateNormalizedAuthRef env model allows denies) of
        Inl e \<Rightarrow> Inl e
      | Inr statements \<Rightarrow>
          (case fieldReadCheckerReturn env allows denies of
             Inl e \<Rightarrow> Inl e
           | Inr ret \<Rightarrow>
               (let func = \<lparr> fn_name = dm_name model @ ''$'' @ f_name field @ ''_read'',
                             fn_returnType = ''boolean'',
                             fn_parameters = [(''input'', ''any''), (''context'', ''QueryContext'')],
                             fn_statements = statements @ [ret] \<rparr>
                in Inr (func, addFunction func sourceFile))))"

record field_read_vars =
  fieldCheckers :: "(string \<times> string) list"
  overrideGuards :: "(string \<times> string) list"
  allFieldsAllows :: "expr list"
  allFieldsDenies :: "expr list"

text \<open>The body of the loop over the fields in \<open>writeFieldReadDef\<close>.\<close>

definition fieldReadLoopBody ::
  "sdk \<Rightarrow> data_model \<Rightarrow> data_model_field \<Rightarrow> field_read_vars \<times> source_file
     \<Rightarrow> error + field_read_vars \<times> source_file" where
  "fieldReadLoopBody env model field vs =
     (let allows = getPolicyExpressions env (OfField field) Allow Read False;
          denies = getPolicyExpressions env (OfField field) Deny Read False
      in if length denies = 0 \<and> length allows = 0 then Inr vs
         else
           (case generateFieldReadCheckerFunction env model (snd vs) field allows denies of
              Inl e \<Rightarrow> Inl e
            | Inr r \<Rightarrow>
                (let vars = (fst vs)\<lparr>
                       allFieldsAllows := allFieldsAllows (fst vs) @ allows,
                       allFieldsDenies := allFieldsDenies (fst vs) @ denies,
                       fieldCheckers := record_set (fieldCheckers (fst vs)) (f_name field) (fn_name (fst r)) \<rparr>;
                     overrideAllows = getPolicyExpressions env (OfField field) Allow Read True
                 in if length overrideAllows > 0 then
                      (let denies' = getPolicyExpressions env (OfField field) Deny Read False
                       in case helper (generateQueryGuardFunction env (snd r) model Read overrideAllows
                                         denies' (Some field) True) of
                            Inl e \<Rightarrow> Inl e
                          | Inr og \<Rightarrow>
                              Inr (vars\<lparr> overrideGuards :=
                                      record_set (overrideGuards vars) (f_name field) (fn_name (fst og)) \<rparr>,
                                   snd og))
                    else Inr (vars, snd r))))"

text \<open>\<open>Object.entries(r).forEach(([fieldName, funcName]) => writer.write(...))\<close>.\<close>

definition writeEntries :: "(string \<times> string) list \<Rightarrow> gen_state \<Rightarrow> error + gen_state" where
  "writeEntries r = forEach (\<lambda>kv. writer_write (fst kv @ '': '' @ snd kv @ '','')) r"

definition skip :: "'s \<Rightarrow> error + 's" where
  "skip st = Inr st"

text \<open>The part of \<open>writeFieldReadDef\<close> after the loop, which writes what the loop collected.\<close>

definition writeFieldReadSection :: "sdk \<Rightarrow> field_read_vars \<Rightarrow> gen_state \<Rightarrow> error + gen_state" where
  "writeFieldReadSection env vars =
     (if length (fieldCheckers vars) > 0 \<or> length (overrideGuards vars) > 0 then
        steps [writer_write ''read:'',
               writer_block
                 (steps [if length (fieldCheckers vars) > 0 then
                           steps [writer_write ''checker:'',
                                  writer_inlineBlock (writeEntries (fieldCheckers vars)),
                                  writer_writeLine '','',
                                  (case generateSelectForRules env
                                          (allFieldsAllows vars @ allFieldsDenies vars) False of
                                     Some readFieldCheckSelect \<Rightarrow>
                                       writer_write (''selector: '' @ JSON_stringify readFieldCheckSelect @ '','')
                                   | None \<Rightarrow> skip)]
                         else skip,
                         if length (overrideGuards vars) > 0 then
                           steps [writer_write ''overrideGuard:'',
                                  writer_inlineBlock (writeEntries (overrideGuards vars)),
                                  writer_writeLine '','']
                         else skip]),
               writer_writeLine '','']
      else skip)"

definition writeFieldReadDef :: "sdk \<Rightarrow> data_model \<Rightarrow> gen_state \<Rightarrow> error + gen_state" where
  "writeFieldReadDef env model st =
     (case forEach (fieldReadLoopBody env model) (dm_fields model)
             (\<lparr> fieldCheckers = [], overrideGuards = [], allFieldsAllows = [], allFieldsDenies = [] \<rparr>,
              snd st) of
        Inl e \<Rightarrow> Inl e
      | Inr r \<Rightarrow> writeFieldReadSection env (fst r) (fst st, snd r))"

record field_update_vars =
  guards :: "(string \<times> string) list"
  updateOverrideGuards :: "(string \<times> string) list"

text \<open>The body of the loop over the fields in \<open>writeFieldUpdateDef\<close>.\<close>

definition fieldUpdateLoopBody ::
  "sdk \<Rightarrow> data_model \<Rightarrow> data_model_field \<Rightarrow> field_update_vars \<times> source_file
     \<Rightarrow> error + field_update_vars \<times> source_file" where
  "fieldUpdateLoopBody env model field vs =
     (let allows = getPolicyExpressions env (OfField field) Allow Update False;
          denies = getPolicyExpressions env (OfField field) Deny Update False
      in if length denies = 0 \<and> length allows = 0 then Inr vs
         else
           (case helper (generateQueryGuardFunction env (snd vs) model Update allows denies (Some field) False) of
              Inl e \<Rightarrow> Inl e
            | Inr r \<Rightarrow>
                (let vars = (fst vs)\<lparr> guards := record_set (guards (fst vs)) (f_name field) (fn_name (fst r)) \<rparr>;
                     overrideAllows = getPolicyExpressions env (OfField field) Allow Update True
                 in if length overrideAllows > 0 then
                      (case helper (generateQueryGuardFunction env (snd r) model Update overrideAllows
                                      denies (Some field) True) of
                         Inl e \<Rightarrow> Inl e
                       | Inr og \<Rightarrow>
                           Inr (vars\<lparr> updateOverrideGuards :=
                                   record_set (updateOverrideGuards vars) (f_name field) (fn_name (fst og)) \<rparr>,
                                snd og))
                    else Inr (vars, snd r))))"

text \<open>The part of \<open>writeFieldUpdateDef\<close> after the loop.\<close>

definition writeFieldUpdateSection :: "field_update_vars \<Rightarrow> gen_state \<Rightarrow> error + gen_state" where
  "writeFieldUpdateSection vars =
     (if length (guards vars) > 0 \<or> length (updateOverrideGuards vars) > 0 then
        steps [writer_write ''update:'',
               writer_block
                 (steps [if length (guards vars) > 0 then
                           steps [writer_write ''guard:'',
                                  writer_inlineBlock (writeEntries (guards vars)),
                                  writer_writeLine '','']
                         else skip,
                         if length (updateOverrideGuards vars) > 0 then
                           steps [writer_write ''overrideGuard:'',
                                  writer_inlineBlock (writeEntries (updateOverrideGuards vars)),
                                  writer_writeLine '','']
                         else skip])]
      else skip)"

definition writeFieldUpdateDef :: "sdk \<Rightarrow> data_model \<Rightarrow> gen_state \<Rightarrow> error + gen_state" where
  "writeFieldUpdateDef env model st =
     (case forEach (fieldUpdateLoopBody env model) (dm_fields model)
             (\<lparr> guards = [], updateOverrideGuards = [] \<rparr>, snd st) of
        Inl e \<Rightarrow> Inl e
      | Inr r \<Rightarrow> writeFieldUpdateSection (fst r) (fst st, snd r))"

definition writeFieldLevelDefs :: "sdk \<Rightarrow> data_model \<Rightarrow> gen_state \<Rightarrow> error + gen_state" where
  "writeFieldLevelDefs env model =
     steps [writer_write ''fieldLevel:'',
            writer_inlineBlock (steps [writeFieldReadDef env model, writeFieldUpdateDef env model]),
            writer_writeLine '','']"

section \<open>The policy object, the auth selector and the generated file\<close>

definition writePolicy :: "plugin_options \<Rightarrow> sdk \<Rightarrow> data_model list \<Rightarrow> gen_state \<Rightarrow> error + gen_state" where
  "writePolicy options env models =
     steps [writer_write ''policy:'',
            writer_inlineBlock
              (forEach (\<lambda>model.
                  steps [writer_write (lowerCaseFirst env (dm_name model) @ '':''),
                         writer_block
                           (steps [writeModelLevelDefs options env model,
                                   writeFieldLevelDefs env model]),
                         writer_writeLine '','']) models),
            writer_writeLine '','']"

definition writeValidationMeta :: "sdk \<Rightarrow> data_model list \<Rightarrow> gen_state \<Rightarrow> error + gen_state" where
  "writeValidationMeta env models =
     steps [writer_write ''validation:'',
            writer_inlineBlock
              (forEach (\<lambda>model.
                  steps [writer_write (lowerCaseFirst env (dm_name model) @ '':''),
                         writer_inlineBlock
                           (writer_write (''hasValidation: '' @ bool_text (hasValidationAttributes env model))),
                         writer_writeLine '','']) models),
            writer_writeLine '','']"

text \<open>\<open>isMemberAccessExpr(node) && isAuthInvocation(node.operand)\<close>.\<close>

fun isAuthMemberAccess :: "expr \<Rightarrow> bool" where
  "isAuthMemberAccess (MemberAccessExpr operand _) = isAuthInvocation operand"
| "isAuthMemberAccess _ = False"

text \<open>The rule expressions of one model that \<open>generateAuthSelector\<close> looks through.\<close>

definition allExpressions :: "data_model \<Rightarrow> expr list" where
  "allExpressions model =
     (let modelPolicyAttrs = filter (\<lambda>attr. attr_decl attr \<in> set [''@@allow'', ''@@deny''])
                               (dm_attributes model);
          fieldPolicyAttrs = filter (\<lambda>attr. attr_decl attr \<in> set [''@allow'', ''@deny''])
                               (concat (map f_attributes (dm_fields model)))
      in map (\<lambda>attr. arg_value (attr_args attr ! 1))
           (filter (\<lambda>attr. length (attr_args attr) > 1) (modelPolicyAttrs @ fieldPolicyAttrs)))"

text \<open>The \<open>auth()\<close> member accesses that one model pushes to \<open>authRules\<close>.\<close>

definition collectAuthRules :: "data_model \<Rightarrow> expr list" where
  "collectAuthRules model =
     concat (map (\<lambda>rule. filter isAuthMemberAccess (streamAst rule)) (allExpressions model))"

definition generateAuthSelector :: "sdk \<Rightarrow> data_model list \<Rightarrow> select option" where
  "generateAuthSelector env models =
     (let authRules = concat (map collectAuthRules models)
      in if length authRules > 0 then generateSelectForRules env authRules True else None)"

definition writeAuthSelector :: "sdk \<Rightarrow> data_model list \<Rightarrow> gen_state \<Rightarrow> error + gen_state" where
  "writeAuthSelector env models st =
     (case generateAuthSelector env models of
        Some authSelector \<Rightarrow> writer_write (''authSelector: '' @ JSON_stringify authSelector @ '','') st
      | None \<Rightarrow> Inr st)"

fun referencedEnum :: "sdk \<Rightarrow> zmodel \<Rightarrow> schema_declaration \<Rightarrow> string list" where
  "referencedEnum env model (EnumD e) = (if isEnumReferenced env model e then [e] else [])"
| "referencedEnum env model _ = []"

definition writeImports :: "plugin_options \<Rightarrow> sdk \<Rightarrow> zmodel \<Rightarrow> string \<Rightarrow> source_file \<Rightarrow> source_file" where
  "writeImports options env model outp sf =
     (let prismaImport = getPrismaClientImportSpec env outp options
      in sf @ [ImportDeclaration
                 [''type QueryContext'', ''type CrudContract'', ''allFieldsEqual'', ''type PolicyDef'',
                  ''type CheckerContext'', ''type CheckerConstraint'']
                 (RUNTIME_PACKAGE env)]
            @ map (\<lambda>e. ImportDeclaration [e] prismaImport)
                (concat (map (referencedEnum env model) (declarations model))))"

text \<open>
  \<open>generate\<close>: \<open>createSourceFile\<close> with \<open>overwrite: true\<close> starts from an empty file at the
  path whatever the project held there. The functions added while the initializer of the
  \<open>policy\<close> variable is written are listed before the variable statement, which is
  complete only when its initializer is. Saving stores the file's content under its path.
\<close>

definition generate :: "plugin_options \<Rightarrow> sdk \<Rightarrow> project \<Rightarrow> zmodel \<Rightarrow> string \<Rightarrow> error + project" where
  "generate options env proj model outp =
     (let file = path_join env outp ''policy.ts'';
          sf = writeImports options env model outp [Statements ''/* eslint-disable */''];
          models = getDataModels env model
      in case writer_block
                (steps [writePolicy options env models,
                        writeValidationMeta env models,
                        writeAuthSelector env models]) ([], sf) of
           Inl e \<Rightarrow> Inl e
         | Inr r \<Rightarrow>
             (let sf' = snd r @ [VariableStatement ''const'' ''policy'' ''PolicyDef'' (fst r),
                                 Statements ''export default policy''];
                  preserveTsFiles = (opt_preserveTsFiles options = Some (OBool True)
                                     \<or> truthy (opt_output options))
              in Inr (proj\<lparr> sourceFiles := (sourceFiles proj)(file \<mapsto> sf'),
                            saved := (if preserveTsFiles then (saved proj)(file \<mapsto> sf')
                                      else saved proj) \<rparr>)))"

section \<open>An instance of the collaborators, after the specification\<close>

text \<open>
  Modelled from the spec: the Policy Expression Collector \<open>getPolicyExpressions\<close>
  (\<open>utils\<close> module, not among the sources). It walks the attributes of the subject and
  keeps the rules of the matching allow/deny family whose operation literal is the kind or
  \<open>all\<close>; with the override flag it keeps only the rules marked as override (an argument
  named \<open>override\<close> with the literal \<open>true\<close>). The condition is the second argument.
\<close>

fun subjectAttributes :: "subject \<Rightarrow> attribute list" where
  "subjectAttributes (OfModel m) = dm_attributes m"
| "subjectAttributes (OfField f) = f_attributes f"

fun ruleAttribute :: "subject \<Rightarrow> rule_family \<Rightarrow> string" where
  "ruleAttribute (OfModel _) Allow = ''@@allow''"
| "ruleAttribute (OfModel _) Deny = ''@@deny''"
| "ruleAttribute (OfField _) Allow = ''@allow''"
| "ruleAttribute (OfField _) Deny = ''@deny''"

fun operationMatches :: "expr \<Rightarrow> policy_operation_kind \<Rightarrow> bool" where
  "operationMatches (LiteralExpr (StringLiteral opn)) kind = (opn = kind_text kind \<or> opn = ''all'')"
| "operationMatches _ kind = False"

definition isOverride :: "attribute \<Rightarrow> bool" where
  "isOverride a =
     list_ex (\<lambda>arg. arg_name arg = Some ''override'' \<and> arg_value arg = LiteralExpr (BooleanLiteral True))
       (attr_args a)"

definition spec_getPolicyExpressions ::
  "subject \<Rightarrow> rule_family \<Rightarrow> policy_operation_kind \<Rightarrow> bool \<Rightarrow> expr list" where
  "spec_getPolicyExpressions subj family kind overrideOnly =
     map (\<lambda>a. arg_value (attr_args a ! 1))
       (filter (\<lambda>a. attr_decl a = ruleAttribute subj family \<and> length (attr_args a) > 1
                    \<and> operationMatches (arg_value (attr_args a ! 0)) kind
                    \<and> (if overrideOnly then isOverride a else True))
          (subjectAttributes subj))"

text \<open>
  Modelled from the spec: the Constant-Policy Analyzer \<open>analyzePolicies\<close> (SDK package,
  not among the sources). A kind is constant-false when no allow rule exists, constant-true
  when an allow rule is the literal \<open>true\<close> with no deny rules or when the kind is
  \<open>postUpdate\<close> with no rules at all, and dynamic otherwise.
\<close>

definition spec_analyzePolicies :: "data_model \<Rightarrow> policy_operation_kind \<Rightarrow> bool option" where
  "spec_analyzePolicies m kind =
     (let allows = spec_getPolicyExpressions (OfModel m) Allow kind False;
          denies = spec_getPolicyExpressions (OfModel m) Deny kind False
      in if kind = PostUpdate \<and> allows = [] \<and> denies = [] then Some True
         else if allows = [] then Some False
         else if LiteralExpr (BooleanLiteral True) \<in> set allows \<and> denies = [] then Some True
         else None)"

text \<open>
  Modelled from the spec: the Selector Generator \<open>generateSelectForRules\<close> (\<open>utils\<close>
  module, not among the sources). Every field reference and every relation traversal of
  the rules adds its path to the select shape, shapes of one relation are merged by
  union, and the result is absent when no path was added. In the auth context the paths
  are the members accessed on \<open>auth()\<close>.
\<close>

fun addPath :: "string list \<Rightarrow> (string \<times> select) list \<Rightarrow> (string \<times> select) list" where
  "addPath [] kvs = kvs"
| "addPath (k # ks) [] = [(k, if ks = [] then SelTrue else SelObj (addPath ks []))]"
| "addPath (k # ks) ((k', v) # kvs) =
     (if k = k'
      then (k, (case v of
                  SelObj sub \<Rightarrow> SelObj (addPath ks sub)
                | SelTrue \<Rightarrow> if ks = [] then SelTrue else SelObj (addPath ks []))) # kvs
      else (k', v) # addPath (k # ks) kvs)"

fun selectPath :: "bool \<Rightarrow> expr \<Rightarrow> string list option" where
  "selectPath forAuth (ReferenceExpr (DataModelFieldTarget ref) _) =
     (if forAuth then None else Some [fl_name ref])"
| "selectPath forAuth (MemberAccessExpr operand m) =
     (if isAuthInvocation operand then (if forAuth then Some [m] else None)
      else (case selectPath forAuth operand of Some path \<Rightarrow> Some (path @ [m]) | None \<Rightarrow> None))"
| "selectPath forAuth _ = None"

definition spec_generateSelectForRules :: "expr list \<Rightarrow> bool \<Rightarrow> select option" where
  "spec_generateSelectForRules rules forAuth =
     (let shape = foldl (\<lambda>acc node. case selectPath forAuth node of
                                        Some path \<Rightarrow> addPath path acc
                                      | None \<Rightarrow> acc)
                    [] (concat (map streamAst rules))
      in if shape = [] then None else Some (SelObj shape))"

text \<open>
  Modelled from the spec: the Expression Transformer in the input context
  (\<open>TypeScriptExpressionTransformer\<close>, SDK package, not among the sources). A literal maps
  to itself, a field of the current model to an access into the input payload, an
  \<open>auth()\<close> member access to the normalized auth variable behind a null guard, operators
  map structurally; any other shape is a generation error.
\<close>

fun spec_transform :: "expr \<Rightarrow> string option" where
  "spec_transform (LiteralExpr (StringLiteral t)) = Some ([CHR 0x27] @ t @ [CHR 0x27])"
| "spec_transform (LiteralExpr (NumberLiteral t)) = Some t"
| "spec_transform (LiteralExpr (BooleanLiteral b)) = Some (bool_text b)"
| "spec_transform NullExpr = Some ''null''"
| "spec_transform (ReferenceExpr (DataModelFieldTarget ref) _) = Some (''input?.'' @ fl_name ref)"
| "spec_transform (MemberAccessExpr operand m) =
     (if isAuthInvocation operand then Some (''user?.'' @ m)
      else (case spec_transform operand of Some t \<Rightarrow> Some (t @ ''?.'' @ m) | None \<Rightarrow> None))"
| "spec_transform (UnaryExpr opr e) =
     (case spec_transform e of Some t \<Rightarrow> Some (opr @ ''('' @ t @ '')'') | None \<Rightarrow> None)"
| "spec_transform (BinaryExpr opr l r) =
     (case spec_transform l of
        Some a \<Rightarrow> (case spec_transform r of
                      Some b \<Rightarrow> Some (''('' @ a @ '' '' @ opr @ '' '' @ b @ '')'')
                    | None \<Rightarrow> None)
      | None \<Rightarrow> None)"
| "spec_transform _ = None"

text \<open>
  Modelled from the spec: \<open>generateNormalizedAuthRef\<close> (\<open>utils\<close> module, not among the
  sources): rules that use \<open>auth()\<close> get a statement binding the normalized auth variable.
\<close>

definition spec_generateNormalizedAuthRef :: "data_model \<Rightarrow> expr list \<Rightarrow> expr list \<Rightarrow> string list option" where
  "spec_generateNormalizedAuthRef m allows denies =
     (if list_ex isAuthInvocation (concat (map streamAst (allows @ denies)))
      then Some [''const user: any = context.user ?? null;'']
      else Some [])"

text \<open>
  Modelled from the spec: the query guard generator \<open>generateQueryGuardFunction\<close>
  (\<open>utils\<close> module, not among the sources): a named function added to the source file
  that returns the filter built from OR-of-allows AND NOT-OR-of-denies, each rule
  transformed. The function is named after the model, the field and the kind.
\<close>

definition spec_generateQueryGuardFunction ::
  "source_file \<Rightarrow> data_model \<Rightarrow> policy_operation_kind \<Rightarrow> expr list \<Rightarrow> expr list
     \<Rightarrow> data_model_field option \<Rightarrow> bool \<Rightarrow> (function_decl \<times> source_file) option" where
  "spec_generateQueryGuardFunction sf m kind allows denies forField fieldOverride =
     (case those (map spec_transform allows) of
        None \<Rightarrow> None
      | Some as \<Rightarrow>
          (case those (map spec_transform denies) of
             None \<Rightarrow> None
           | Some ds \<Rightarrow>
               (let func = \<lparr> fn_name = dm_name m
                               @ (case forField of Some f \<Rightarrow> ''$'' @ f_name f | None \<Rightarrow> [])
                               @ (if fieldOverride then ''$override'' else [])
                               @ ''_'' @ kind_text kind,
                             fn_returnType = ''any'',
                             fn_parameters = [(''context'', ''QueryContext''), (''db'', ''CrudContract'')],
                             fn_statements =
                               [''return { AND: [{ OR: ['' @ join '', '' as @ ''] }, { NOT: { OR: [''
                                  @ join '', '' ds @ ''] } }] };''] \<rparr>
                in Some (func, addFunction func sf))))"

text \<open>
  Modelled from the spec: the constraint transformer behind the permission checker
  (\<open>ConstraintTransformer\<close>, not among the sources), which compiles the rules into a
  boolean constraint: allowed by some allow rule and by no deny rule.
\<close>

definition spec_transformRules :: "expr list \<Rightarrow> expr list \<Rightarrow> string option" where
  "spec_transformRules allows denies =
     (case those (map spec_transform allows) of
        None \<Rightarrow> None
      | Some as \<Rightarrow>
          (case those (map spec_transform denies) of
             None \<Rightarrow> None
           | Some ds \<Rightarrow>
               Some (''{ and: [{ or: ['' @ join '', '' as @ ''] }, { not: { or: ['' @ join '', '' ds
                     @ ''] } }] }'')))"

fun dataModelsOf :: "schema_declaration \<Rightarrow> data_model list" where
  "dataModelsOf (DataModelD m) = [m]"
| "dataModelsOf _ = []"

fun lowerFirst :: "string \<Rightarrow> string" where
  "lowerFirst [] = []"
| "lowerFirst (c # cs) =
     (case map_of (zip ''ABCDEFGHIJKLMNOPQRSTUVWXYZ'' ''abcdefghijklmnopqrstuvwxyz'') c of
        Some l \<Rightarrow> l
      | None \<Rightarrow> c) # cs"

text \<open>
  The instance: the helpers above, a schema whose data models are its data model
  declarations, no foreign-key fields, no validation attributes, every enum referenced.
\<close>

definition spec_sdk :: sdk where
  "spec_sdk =
     \<lparr> getPolicyExpressions = spec_getPolicyExpressions,
       analyzePolicies = spec_analyzePolicies,
       generateSelectForRules = spec_generateSelectForRules,
       generateQueryGuardFunction = spec_generateQueryGuardFunction,
       generateNormalizedAuthRef = spec_generateNormalizedAuthRef,
       transform = spec_transform,
       transformRules = spec_transformRules,
       isForeignKeyField = (\<lambda>ref. False),
       getDataModels = (\<lambda>m. concat (map dataModelsOf (declarations m))),
       isEnumReferenced = (\<lambda>m e. True),
       getPrismaClientImportSpec = (\<lambda>outp options. ''@prisma/client''),
       hasValidationAttributes = (\<lambda>m. False),
       lowerCaseFirst = lowerFirst,
       RUNTIME_PACKAGE = ''@zenstackhq/runtime'',
       path_join = (\<lambda>dir file. dir @ ''/'' @ file) \<rparr>"

section \<open>Example schemas\<close>

text \<open>
  \<open>Post\<close> is the model of the specification's end-to-end property; the other models
  exercise one feature each.
\<close>

definition policyRule :: "string \<Rightarrow> string \<Rightarrow> expr \<Rightarrow> attribute" where
  "policyRule name opn cond =
     \<lparr> attr_decl = name,
       attr_args = [\<lparr> arg_name = None, arg_value = LiteralExpr (StringLiteral opn) \<rparr>,
                    \<lparr> arg_name = None, arg_value = cond \<rparr>] \<rparr>"

definition overrideRule :: "string \<Rightarrow> string \<Rightarrow> expr \<Rightarrow> attribute" where
  "overrideRule name opn cond =
     \<lparr> attr_decl = name,
       attr_args = [\<lparr> arg_name = None, arg_value = LiteralExpr (StringLiteral opn) \<rparr>,
                    \<lparr> arg_name = None, arg_value = cond \<rparr>,
                    \<lparr> arg_name = Some ''override'', arg_value = LiteralExpr (BooleanLiteral True) \<rparr>] \<rparr>"

definition fieldRef :: "string \<Rightarrow> string \<Rightarrow> string list \<Rightarrow> expr" where
  "fieldRef container name attrs =
     ReferenceExpr
       (DataModelFieldTarget \<lparr> fl_name = name, fl_container = container, fl_attributes = attrs \<rparr>) None"

definition authMember :: "string \<Rightarrow> expr" where
  "authMember m = MemberAccessExpr (InvocationExpr ''auth'' []) m"

definition plainField :: "string \<Rightarrow> data_model_field" where
  "plainField name = \<lparr> f_name = name, f_attributes = [] \<rparr>"

definition isTrue :: "expr \<Rightarrow> expr" where
  "isTrue e = BinaryExpr ''=='' e (LiteralExpr (BooleanLiteral True))"

definition Post :: data_model where
  "Post = \<lparr> dm_name = ''Post'',
            dm_fields = [\<lparr> f_name = ''id'', f_attributes = [\<lparr> attr_decl = ''@id'', attr_args = [] \<rparr>] \<rparr>,
                         plainField ''title'', plainField ''published'', plainField ''authorId''],
            dm_attributes =
              [policyRule ''@@allow'' ''read'' (isTrue (fieldRef ''Post'' ''published'' [])),
               policyRule ''@@allow'' ''all''
                 (BinaryExpr ''=='' (authMember ''id'') (fieldRef ''Post'' ''authorId'' []))] \<rparr>"

text \<open>A model that can only be read.\<close>

definition Note :: data_model where
  "Note = \<lparr> dm_name = ''Note'',
            dm_fields = [plainField ''id'', plainField ''text''],
            dm_attributes = [policyRule ''@@allow'' ''read'' (LiteralExpr (BooleanLiteral True))] \<rparr>"

text \<open>A model whose only rule is a post-update rule.\<close>

definition Revision :: data_model where
  "Revision = \<lparr> dm_name = ''Revision'',
                dm_fields = [plainField ''id'', plainField ''approved''],
                dm_attributes =
                  [policyRule ''@@allow'' ''postUpdate'' (isTrue (fieldRef ''Revision'' ''approved'' []))] \<rparr>"

text \<open>A model whose create rule reads a field with a default value.\<close>

definition Task :: data_model where
  "Task = \<lparr> dm_name = ''Task'',
            dm_fields = [plainField ''id'',
                         \<lparr> f_name = ''open'', f_attributes = [\<lparr> attr_decl = ''@default'', attr_args = [] \<rparr>] \<rparr>],
            dm_attributes =
              [policyRule ''@@allow'' ''create'' (isTrue (fieldRef ''Task'' ''open'' [''@default'']))] \<rparr>"

text \<open>
  A model with field-level rules: \<open>email\<close> has an override allow rule and a deny rule for
  reading, \<open>phone\<close> a plain allow rule, \<open>name\<close> no rule.
\<close>

definition emailField :: data_model_field where
  "emailField =
     \<lparr> f_name = ''email'',
       f_attributes =
         [overrideRule ''@allow'' ''read'' (isTrue (fieldRef ''Profile'' ''public'' [])),
          policyRule ''@deny'' ''read'' (isTrue (fieldRef ''Profile'' ''banned'' []))] \<rparr>"

definition phoneField :: data_model_field where
  "phoneField =
     \<lparr> f_name = ''phone'',
       f_attributes = [policyRule ''@allow'' ''read'' (BinaryExpr ''=='' (authMember ''id'')
                                                       (fieldRef ''Profile'' ''id'' []))] \<rparr>"

definition Profile :: data_model where
  "Profile = \<lparr> dm_name = ''Profile'',
               dm_fields = [plainField ''id'', plainField ''name'', emailField, phoneField,
                            plainField ''public'', plainField ''banned''],
               dm_attributes = [policyRule ''@@allow'' ''all'' (LiteralExpr (BooleanLiteral True))] \<rparr>"

definition noOptions :: plugin_options where
  "noOptions = \<lparr> opt_generatePermissionChecker = None, opt_preserveTsFiles = None, opt_output = None \<rparr>"

definition checkerOptions :: plugin_options where
  "checkerOptions =
     \<lparr> opt_generatePermissionChecker = Some (OBool True), opt_preserveTsFiles = None, opt_output = None \<rparr>"

definition emptyProject :: project where
  "emptyProject = \<lparr> sourceFiles = Map.empty, saved = Map.empty \<rparr>"

section \<open>The input-checkable test, as the specification words it\<close>

text \<open>
  A rule is input-checkable when it contains no \<open>this\<close> expression, no reference whose
  resolved type is a data model, no reference to a field of the current model that carries
  \<open>@default\<close>, and no reference to a foreign-key field.
\<close>

fun isRelationReference :: "expr \<Rightarrow> bool" where
  "isRelationReference (ReferenceExpr _ (Some (DataModelDecl _))) = True"
| "isRelationReference _ = False"

fun isDefaultFieldReference :: "data_model \<Rightarrow> expr \<Rightarrow> bool" where
  "isDefaultFieldReference model (ReferenceExpr (DataModelFieldTarget ref) _) =
     (fl_container ref = dm_name model \<and> ''@default'' \<in> set (fl_attributes ref))"
| "isDefaultFieldReference model _ = False"

fun isForeignKeyReference :: "sdk \<Rightarrow> expr \<Rightarrow> bool" where
  "isForeignKeyReference env (ReferenceExpr (DataModelFieldTarget ref) _) = isForeignKeyField env ref"
| "isForeignKeyReference env _ = False"

definition inputCheckable :: "sdk \<Rightarrow> data_model \<Rightarrow> expr \<Rightarrow> bool" where
  "inputCheckable env model rule =
     (\<not> list_ex isThisExpr (streamAst rule)
      \<and> \<not> list_ex isRelationReference (streamAst rule)
      \<and> \<not> list_ex (isDefaultFieldReference model) (streamAst rule)
      \<and> \<not> list_ex (isForeignKeyReference env) (streamAst rule))"

section \<open>Reading the writer's output\<close>

text \<open>All texts written in a part of the output, blocks included.\<close>

fun written :: "wr \<Rightarrow> string list" where
  "written (Write s) = [s]"
| "written (WriteLine s) = [s]"
| "written (Block ws) = concat (map written ws)"
| "written (InlineBlock ws) = concat (map written ws)"

definition isPermissionCheckerEntry :: "string \<Rightarrow> bool" where
  "isPermissionCheckerEntry s = (take 19 s = ''permissionChecker: '')"

definition permissionCheckerEntries :: "writer \<Rightarrow> string list" where
  "permissionCheckerEntries w = filter isPermissionCheckerEntry (concat (map written w))"

text \<open>
  \<open>emits P f\<close>: whenever the step \<open>f\<close> returns, it has appended to the writer, and what
  it appended satisfies \<open>P\<close>.
\<close>

definition emits :: "(writer \<Rightarrow> bool) \<Rightarrow> (gen_state \<Rightarrow> error + gen_state) \<Rightarrow> bool" where
  "emits P f = (\<forall>w sf w' sf'. f (w, sf) = Inr (w', sf') \<longrightarrow> (\<exists>new. w' = w @ new \<and> P new))"

text \<open>A property of output that holds of nothing, of concatenations and of blocks.\<close>

definition hereditary :: "(writer \<Rightarrow> bool) \<Rightarrow> bool" where
  "hereditary P = (P [] \<and> (\<forall>a b. P a \<longrightarrow> P b \<longrightarrow> P (a @ b))
                   \<and> (\<forall>a. P a \<longrightarrow> P [Block a] \<and> P [InlineBlock a]))"

definition noPermissionChecker :: "writer \<Rightarrow> bool" where
  "noPermissionChecker w = (permissionCheckerEntries w = [])"

text \<open>\<open>noAbort f\<close>: the step \<open>f\<close> never takes the \<open>should not happen\<close> throw.\<close>

definition noAbort :: "('s \<Rightarrow> error + 's) \<Rightarrow> bool" where
  "noAbort f = (\<forall>st. f st \<noteq> Inl ShouldNotHappen)"

section \<open>Field-level rules, as the specification words them\<close>

text \<open>A field carries a field-level rule of a kind when it has an allow or a deny rule for it.\<close>

definition hasFieldRules :: "sdk \<Rightarrow> policy_operation_kind \<Rightarrow> data_model_field \<Rightarrow> bool" where
  "hasFieldRules env kind field =
     (getPolicyExpressions env (OfField field) Allow kind False \<noteq> []
      \<or> getPolicyExpressions env (OfField field) Deny kind False \<noteq> [])"

definition ruledFields :: "sdk \<Rightarrow> policy_operation_kind \<Rightarrow> data_model \<Rightarrow> data_model_field list" where
  "ruledFields env kind model = filter (hasFieldRules env kind) (dm_fields model)"

text \<open>The entries \<open>name: function,\<close> of a checker, guard or override guard object.\<close>

definition entryLines :: "(string \<times> string) list \<Rightarrow> writer" where
  "entryLines r = map (\<lambda>kv. Write (fst kv @ '': '' @ snd kv @ '','')) r"

text \<open>
  The read override guard of a field as a query guard built from the override-marked
  allow rules and from no other rule.
\<close>

definition overrideGuardFromAllowsOnly ::
  "sdk \<Rightarrow> source_file \<Rightarrow> data_model \<Rightarrow> data_model_field \<Rightarrow> (function_decl \<times> source_file) option" where
  "overrideGuardFromAllowsOnly env sf model field =
     generateQueryGuardFunction env sf model Read
       (getPolicyExpressions env (OfField field) Allow Read True) [] (Some field) True"

definition noFieldVars :: field_read_vars where
  "noFieldVars = \<lparr> fieldCheckers = [], overrideGuards = [], allFieldsAllows = [], allFieldsDenies = [] \<rparr>"

definition emailReadChecker :: function_decl where
  "emailReadChecker =
     \<lparr> fn_name = ''Profile$email_read'', fn_returnType = ''boolean'',
       fn_parameters = [(''input'', ''any''), (''context'', ''QueryContext'')],
       fn_statements = [''return !((input?.banned == true)) && ((input?.public == true))''] \<rparr>"

definition emailOverrideGuard :: function_decl where
  "emailOverrideGuard =
     \<lparr> fn_name = ''Profile$email$override_read'', fn_returnType = ''any'',
       fn_parameters = [(''context'', ''QueryContext''), (''db'', ''CrudContract'')],
       fn_statements =
         [''return { AND: [{ OR: [(input?.public == true)] }, { NOT: { OR: [(input?.banned == true)] } }] };''] \<rparr>"

section \<open>Policy rules that read the auth principal, as the specification words them\<close>

text \<open>
  A policy rule of a model is a model-level \<open>@@allow\<close>/\<open>@@deny\<close> attribute of the model or
  a field-level \<open>@allow\<close>/\<open>@deny\<close> attribute of one of its fields; with at least two
  arguments, its rule expression is the second one.
\<close>

definition isPolicyRuleOf :: "data_model \<Rightarrow> attribute \<Rightarrow> bool" where
  "isPolicyRuleOf m a =
     ((a \<in> set (dm_attributes m) \<and> (attr_decl a = ''@@allow'' \<or> attr_decl a = ''@@deny''))
      \<or> (\<exists>f \<in> set (dm_fields m).
            a \<in> set (f_attributes f) \<and> (attr_decl a = ''@allow'' \<or> attr_decl a = ''@deny'')))"

text \<open>The expression contains a member access on an \<open>auth()\<close> invocation.\<close>

definition usesAuthMember :: "expr \<Rightarrow> bool" where
  "usesAuthMember e = list_ex isAuthMemberAccess (streamAst e)"

definition someRuleUsesAuthMember :: "data_model list \<Rightarrow> bool" where
  "someRuleUsesAuthMember models =
     (\<exists>m \<in> set models. \<exists>a. isPolicyRuleOf m a \<and> length (attr_args a) \<ge> 2
                               \<and> usesAuthMember (arg_value (attr_args a ! 1)))"

definition PostSchema :: zmodel where
  "PostSchema = \<lparr> declarations = [DataModelD Post] \<rparr>"

definition queryGuard :: "string \<Rightarrow> string \<Rightarrow> sf_item" where
  "queryGuard name allowed =
     FunctionDeclaration
       \<lparr> fn_name = name, fn_returnType = ''any'',
         fn_parameters = [(''context'', ''QueryContext''), (''db'', ''CrudContract'')],
         fn_statements = [''return { AND: [{ OR: ['' @ allowed @ ''] }, { NOT: { OR: [] } }] };''] \<rparr>"

text \<open>The per-model part of the policy object generated for \<open>PostSchema\<close>.\<close>

definition PostPolicyEntries :: writer where
  "PostPolicyEntries =
     [Write ''policy:'',
      InlineBlock
        [Write ''post:'',
         Block
           [Write ''modelLevel:'',
            InlineBlock
              [Write ''read:'', InlineBlock [Write ''guard: Post_read,''], WriteLine '','',
               Write ''create:'',
               InlineBlock [Write ''guard: Post_create,'', Write ''inputChecker: Post_create_input,''],
               WriteLine '','',
               Write ''update:'', InlineBlock [Write ''guard: Post_update,''], WriteLine '','',
               Write ''postUpdate:'',
               InlineBlock
                 [Write ''guard: Post_postUpdate,'',
                  WriteLine (''preUpdateSelector: '' @ JSON_stringify (SelObj [(''authorId'', SelTrue)])
                             @ '','')],
               WriteLine '','',
               Write ''delete:'', InlineBlock [Write ''guard: Post_delete,'']],
            WriteLine '','',
            Write ''fieldLevel:'', InlineBlock [], WriteLine '',''],
         WriteLine '',''],
      WriteLine '','',
      Write ''validation:'',
      InlineBlock [Write ''post:'', InlineBlock [Write ''hasValidation: false''], WriteLine '',''],
      WriteLine '','']"

definition PostFunctions :: source_file where
  "PostFunctions =
     [Statements ''/* eslint-disable */'',
      ImportDeclaration
        [''type QueryContext'', ''type CrudContract'', ''allFieldsEqual'', ''type PolicyDef'',
         ''type CheckerContext'', ''type CheckerConstraint'']
        ''@zenstackhq/runtime'',
      queryGuard ''Post_read'' ''(input?.published == true), (user?.id == input?.authorId)'',
      queryGuard ''Post_create'' ''(user?.id == input?.authorId)'',
      FunctionDeclaration
        \<lparr> fn_name = ''Post_create_input'', fn_returnType = ''boolean'',
          fn_parameters = [(''input'', ''any''), (''context'', ''QueryContext'')],
          fn_statements = [''const user: any = context.user ?? null;'',
                           ''return (user?.id == input?.authorId)''] \<rparr>,
      queryGuard ''Post_update'' ''(user?.id == input?.authorId)'',
      queryGuard ''Post_postUpdate'' ''(user?.id == input?.authorId)'',
      queryGuard ''Post_delete'' ''(user?.id == input?.authorId)'']"

definition PostPolicyFile :: source_file where
  "PostPolicyFile =
     PostFunctions
     @ [VariableStatement ''const'' ''policy'' ''PolicyDef''
          [Block (PostPolicyEntries
                  @ [Write (''authSelector: '' @ JSON_stringify (SelObj [(''id'', SelTrue)]) @ '','')])],
        Statements ''export default policy'']"

section \<open>Properties of the generator\<close>

lemmas writer_defs = writer_write_def writer_writeLine_def writer_inlineBlock_def writer_block_def
  andThen_def steps_def skip_def helper_def

lemmas example_defs = spec_sdk_def spec_getPolicyExpressions_def spec_analyzePolicies_def
  spec_generateSelectForRules_def spec_generateNormalizedAuthRef_def spec_generateQueryGuardFunction_def
  spec_transformRules_def isOverride_def policyRule_def overrideRule_def fieldRef_def authMember_def
  plainField_def isTrue_def Post_def Note_def Revision_def Task_def emailField_def phoneField_def
  Profile_def noOptions_def checkerOptions_def emptyProject_def hasAttribute_def addFunction_def

subsection \<open>The rules of the example models\<close>

lemma Note_allow_update: "getPolicyExpressions spec_sdk (OfModel Note) Allow Update False = []"
  by (simp add: example_defs)

lemma Note_allow_postUpdate: "getPolicyExpressions spec_sdk (OfModel Note) Allow PostUpdate False = []"
  by (simp add: example_defs)

lemma Note_deny_postUpdate: "getPolicyExpressions spec_sdk (OfModel Note) Deny PostUpdate False = []"
  by (simp add: example_defs)

lemma Revision_allow_update: "getPolicyExpressions spec_sdk (OfModel Revision) Allow Update False = []"
  by (simp add: example_defs)

lemma Revision_allow_postUpdate:
  "getPolicyExpressions spec_sdk (OfModel Revision) Allow PostUpdate False \<noteq> []"
  by (simp add: example_defs)

subsection \<open>Model-level update guard without update allow rules\<close>

text \<open>
  C1. For a model with no model-level allow rule for \<open>update\<close>, what is written inside the
  model's \<open>update:\<close> block starts with the guard entry, which is the constant \<open>false\<close>
  when the model has no \<open>postUpdate\<close> allow rule either and the constant \<open>true\<close> when it
  has one. Generation does not fail and the source file is returned as it was: no guard
  function (and no permission checker function) is added. With permission checkers
  switched on, the one further entry is a constant too.
\<close>

theorem update_guard_default:
  assumes "getPolicyExpressions env (OfModel model) Allow Update False = []"
  shows "writeCommonModelDef options env model Update policies (w, sf) =
           Inr (w @ [Write (if getPolicyExpressions env (OfModel model) Allow PostUpdate False = []
                            then ''guard: false,'' else ''guard: true,'')]
                  @ (if opt_generatePermissionChecker options = Some (OBool True)
                     then [Write (''permissionChecker: ''
                             @ bool_text (case policies Update of
                                            Some b \<Rightarrow> b
                                          | None \<Rightarrow> getPolicyExpressions env (OfModel model) Allow PostUpdate False \<noteq> [])
                             @ '','')]
                     else []),
                sf)"
  using assms
  by (simp add: writeCommonModelDef_def writePolicyGuard_def writePermissionChecker_def writer_defs
           split: option.splits)

theorem update_guard_default_witness:
  "getPolicyExpressions spec_sdk (OfModel Note) Allow Update False = [] \<and>
   writeCommonModelDef noOptions spec_sdk Note Update (analyzePolicies spec_sdk Note) ([], []) =
     Inr ([Write ''guard: false,''], []) \<and>
   getPolicyExpressions spec_sdk (OfModel Revision) Allow Update False = [] \<and>
   writeCommonModelDef checkerOptions spec_sdk Revision Update (analyzePolicies spec_sdk Revision) ([], []) =
     Inr ([Write ''guard: true,'', Write ''permissionChecker: false,''], [])"
  using update_guard_default[OF Note_allow_update, of noOptions "analyzePolicies spec_sdk Note" "[]" "[]"]
        update_guard_default[OF Revision_allow_update, of checkerOptions
          "analyzePolicies spec_sdk Revision" "[]" "[]"]
        Note_allow_update Note_allow_postUpdate Revision_allow_update Revision_allow_postUpdate
  by (simp add: noOptions_def checkerOptions_def) (simp add: example_defs)

subsection \<open>The create input checker\<close>

lemma canCheckNode_iff:
  "canCheckNode env model e =
     (\<not> isThisExpr e \<and> \<not> isRelationReference e \<and> \<not> isDefaultFieldReference model e
      \<and> \<not> isForeignKeyReference env e)"
proof (cases e)
  case (ReferenceExpr target resolvedType)
  show ?thesis
  proof (cases target)
    case (DataModelFieldTarget ref)
    show ?thesis
    proof (cases resolvedType)
      case None
      with ReferenceExpr DataModelFieldTarget show ?thesis by (simp add: hasAttribute_def)
    next
      case (Some d)
      with ReferenceExpr DataModelFieldTarget show ?thesis by (cases d) (simp_all add: hasAttribute_def)
    qed
  next
    case (OtherTarget n)
    show ?thesis
    proof (cases resolvedType)
      case None
      with ReferenceExpr OtherTarget show ?thesis by simp
    next
      case (Some d)
      with ReferenceExpr OtherTarget show ?thesis by (cases d) simp_all
    qed
  qed
qed simp_all

lemma canCheck_iff_inputCheckable:
  "canCheckCreateBasedOnInput env model allows denies = list_all (inputCheckable env model) (allows @ denies)"
  unfolding canCheckCreateBasedOnInput_def inputCheckable_def
  by (auto simp: list_all_iff list_ex_iff canCheckNode_iff)

lemma Post_create_rules:
  "getPolicyExpressions spec_sdk (OfModel Post) Allow Create False =
     [BinaryExpr ''=='' (authMember ''id'') (fieldRef ''Post'' ''authorId'' [])]"
  "getPolicyExpressions spec_sdk (OfModel Post) Deny Create False = []"
  by (simp_all add: spec_sdk_def spec_getPolicyExpressions_def Post_def policyRule_def)

lemma Task_create_rules:
  "getPolicyExpressions spec_sdk (OfModel Task) Allow Create False =
     [isTrue (fieldRef ''Task'' ''open'' [''@default''])]"
  "getPolicyExpressions spec_sdk (OfModel Task) Deny Create False = []"
  by (simp_all add: spec_sdk_def spec_getPolicyExpressions_def Task_def policyRule_def)

text \<open>
  C2. The \<open>inputChecker\<close> entry of a model's \<open>create\<close> kind is written exactly when every
  create allow and deny rule is input-checkable in the specification's sense: then the
  input checker function is generated (generation fails as a whole if a helper throws on
  the way), its name \<open>Model_create_input\<close> is the entry and the function is added to the
  source file; when some rule is not input-checkable nothing is written and nothing is
  generated.
\<close>

theorem create_input_checker_iff_checkable:
  "writeCreateInputChecker env model (w, sf) =
     (if list_all (inputCheckable env model)
           (getPolicyExpressions env (OfModel model) Allow Create False
            @ getPolicyExpressions env (OfModel model) Deny Create False)
      then (case generateCreateInputCheckerFunction env model
                   (getPolicyExpressions env (OfModel model) Allow Create False)
                   (getPolicyExpressions env (OfModel model) Deny Create False) sf of
              Inl e \<Rightarrow> Inl e
            | Inr r \<Rightarrow>
                Inr (w @ [Write (''inputChecker: '' @ dm_name model @ ''_create_input,'')],
                     sf @ [FunctionDeclaration (fst r)]))
      else Inr (w, sf))"
  by (auto simp: writeCreateInputChecker_def canCheck_iff_inputCheckable Let_def writer_defs
        generateCreateInputCheckerFunction_def addFunction_def
      split: sum.splits option.splits)

theorem create_input_checker_iff_checkable_witness:
  "writeCreateInputChecker spec_sdk Post ([], []) =
     Inr ([Write ''inputChecker: Post_create_input,''],
          [FunctionDeclaration
             \<lparr> fn_name = ''Post_create_input'', fn_returnType = ''boolean'',
               fn_parameters = [(''input'', ''any''), (''context'', ''QueryContext'')],
               fn_statements = [''const user: any = context.user ?? null;'',
                                ''return (user?.id == input?.authorId)''] \<rparr>])
   \<and> writeCreateInputChecker spec_sdk Task ([], []) = Inr ([], [])"
  using create_input_checker_iff_checkable[of spec_sdk Post "[]" "[]"]
        create_input_checker_iff_checkable[of spec_sdk Task "[]" "[]"]
  unfolding Post_create_rules Task_create_rules
  by (simp add: inputCheckable_def generateCreateInputCheckerFunction_def createInputCheckerReturn_def
        transformAll_def helper_def addFunction_def authMember_def fieldRef_def isTrue_def
        spec_sdk_def spec_generateNormalizedAuthRef_def Post_def Task_def Let_def)


lemma Post_create_input:
  "generateCreateInputCheckerFunction spec_sdk Post
     [BinaryExpr ''=='' (authMember ''id'') (fieldRef ''Post'' ''authorId'' [])]
     [isTrue (fieldRef ''Post'' ''published'' [])] [] =
   Inr (\<lparr> fn_name = ''Post_create_input'', fn_returnType = ''boolean'',
          fn_parameters = [(''input'', ''any''), (''context'', ''QueryContext'')],
          fn_statements = [''const user: any = context.user ?? null;'',
                           ''return !((input?.published == true)) && ((user?.id == input?.authorId))''] \<rparr>,
        [FunctionDeclaration
           \<lparr> fn_name = ''Post_create_input'', fn_returnType = ''boolean'',
             fn_parameters = [(''input'', ''any''), (''context'', ''QueryContext'')],
             fn_statements = [''const user: any = context.user ?? null;'',
                              ''return !((input?.published == true)) && ((user?.id == input?.authorId))''] \<rparr>])"
  by (simp add: generateCreateInputCheckerFunction_def createInputCheckerReturn_def
        transformAll_def helper_def addFunction_def authMember_def fieldRef_def isTrue_def
        spec_sdk_def spec_generateNormalizedAuthRef_def Post_def Let_def)


subsection \<open>The post-update guard without post-update rules\<close>

text \<open>
  C4. For a model with no allow rule and no deny rule for \<open>postUpdate\<close>, the model's
  \<open>postUpdate:\<close> block holds the entry \<open>guard: true,\<close> and nothing else: no guard
  function is generated and no \<open>preUpdateSelector\<close> entry is written. The selector
  generator is not among the sources; as the specification says, it returns nothing for a
  rule set that needs no data, here the empty rule set.
\<close>

theorem postUpdate_guard_default:
  assumes "getPolicyExpressions env (OfModel model) Allow PostUpdate False = []"
      and "getPolicyExpressions env (OfModel model) Deny PostUpdate False = []"
      and "generateSelectForRules env [] False = None"
  shows "writeModelPostUpdateDef options env model policies (w, sf) =
           Inr (w @ [Write ''postUpdate:'', InlineBlock [Write ''guard: true,''], WriteLine '',''], sf)"
  using assms
  by (simp add: writeModelPostUpdateDef_def writeCommonModelDef_def writePolicyGuard_def
        writePostUpdatePreValueSelector_def writer_defs)

theorem postUpdate_guard_default_witness:
  "getPolicyExpressions spec_sdk (OfModel Note) Allow PostUpdate False = []
   \<and> getPolicyExpressions spec_sdk (OfModel Note) Deny PostUpdate False = []
   \<and> generateSelectForRules spec_sdk [] False = None
   \<and> writeModelPostUpdateDef checkerOptions spec_sdk Note (analyzePolicies spec_sdk Note) ([], []) =
       Inr ([Write ''postUpdate:'', InlineBlock [Write ''guard: true,''], WriteLine '',''], [])"
proof -
  have sel: "generateSelectForRules spec_sdk [] False = None"
    by (simp add: spec_sdk_def spec_generateSelectForRules_def)
  show ?thesis
    using postUpdate_guard_default[OF Note_allow_postUpdate Note_deny_postUpdate sel,
            of checkerOptions "analyzePolicies spec_sdk Note" "[]" "[]"]
          Note_allow_postUpdate Note_deny_postUpdate sel
    by simp
qed

subsection \<open>Composing generator steps\<close>

lemma emitsI:
  assumes "\<And>w sf w' sf'. f (w, sf) = Inr (w', sf') \<Longrightarrow> \<exists>new. w' = w @ new \<and> P new"
  shows "emits P f"
  using assms unfolding emits_def by blast

lemma emitsD:
  assumes "emits P f" and "f (w, sf) = Inr (w', sf')"
  shows "\<exists>new. w' = w @ new \<and> P new"
  using assms unfolding emits_def by blast

lemma emits_write: "P [Write s] \<Longrightarrow> emits P (writer_write s)"
  by (auto simp: emits_def writer_write_def)

lemma emits_writeLine: "P [WriteLine s] \<Longrightarrow> emits P (writer_writeLine s)"
  by (auto simp: emits_def writer_writeLine_def)

lemma emits_skip: "P [] \<Longrightarrow> emits P skip"
  by (auto simp: emits_def skip_def)

lemma emits_inlineBlock:
  assumes "hereditary P" and "emits P body"
  shows "emits P (writer_inlineBlock body)"
proof (rule emitsI)
  fix w sf w' sf'
  assume r: "writer_inlineBlock body (w, sf) = Inr (w', sf')"
  then obtain inner where b: "body ([], sf) = Inr (inner, sf')" and w': "w' = w @ [InlineBlock inner]"
    by (auto simp: writer_inlineBlock_def split: sum.splits)
  from emitsD[OF assms(2) b] have "P inner" by simp
  with assms(1) have "P [InlineBlock inner]" by (simp add: hereditary_def)
  with w' show "\<exists>new. w' = w @ new \<and> P new" by blast
qed

lemma emits_block:
  assumes "hereditary P" and "emits P body"
  shows "emits P (writer_block body)"
proof (rule emitsI)
  fix w sf w' sf'
  assume r: "writer_block body (w, sf) = Inr (w', sf')"
  then obtain inner where b: "body ([], sf) = Inr (inner, sf')" and w': "w' = w @ [Block inner]"
    by (auto simp: writer_block_def split: sum.splits)
  from emitsD[OF assms(2) b] have "P inner" by simp
  with assms(1) have "P [Block inner]" by (simp add: hereditary_def)
  with w' show "\<exists>new. w' = w @ new \<and> P new" by blast
qed

lemma emits_forEach:
  assumes "hereditary P" and "\<And>x. x \<in> set xs \<Longrightarrow> emits P (f x)"
  shows "emits P (forEach f xs)"
  using assms(2)
proof (induction xs)
  case Nil
  from assms(1) show ?case by (auto simp: emits_def hereditary_def)
next
  case (Cons x xs)
  have hd: "emits P (f x)" and tl: "emits P (forEach f xs)"
    using Cons by simp_all
  show ?case
  proof (rule emitsI)
    fix w sf w' sf'
    assume "forEach f (x # xs) (w, sf) = Inr (w', sf')"
    then obtain w1 sf1 where s1: "f x (w, sf) = Inr (w1, sf1)"
        and s2: "forEach f xs (w1, sf1) = Inr (w', sf')"
      by (auto split: sum.splits)
    from emitsD[OF hd s1] obtain a where a: "w1 = w @ a" "P a" by blast
    from emitsD[OF tl s2] obtain b where b: "w' = w1 @ b" "P b" by blast
    from a b assms(1) have "w' = w @ (a @ b) \<and> P (a @ b)" by (simp add: hereditary_def)
    then show "\<exists>new. w' = w @ new \<and> P new" by blast
  qed
qed

lemma emits_steps:
  assumes "hereditary P" and "\<And>f. f \<in> set fs \<Longrightarrow> emits P f"
  shows "emits P (steps fs)"
proof -
  have "emits P (forEach (\<lambda>f. f) fs)"
    using assms by (rule emits_forEach)
  moreover have "steps fs = forEach (\<lambda>f. f) fs"
    by (rule ext) (simp add: steps_def)
  ultimately show ?thesis by simp
qed

lemma emits_andThen:
  assumes "hereditary P" and "emits P f" and "emits P g"
  shows "emits P (andThen f g)"
proof (rule emitsI)
  fix w sf w' sf'
  assume "andThen f g (w, sf) = Inr (w', sf')"
  then obtain w1 sf1 where s1: "f (w, sf) = Inr (w1, sf1)" and s2: "g (w1, sf1) = Inr (w', sf')"
    by (auto simp: andThen_def split: sum.splits)
  from emitsD[OF assms(2) s1] obtain a where a: "w1 = w @ a" "P a" by blast
  from emitsD[OF assms(3) s2] obtain b where b: "w' = w1 @ b" "P b" by blast
  from a b assms(1) have "w' = w @ (a @ b) \<and> P (a @ b)" by (simp add: hereditary_def)
  then show "\<exists>new. w' = w @ new \<and> P new" by blast
qed

subsection \<open>Permission checkers are opt-in\<close>

lemma noPermissionChecker_hereditary: "hereditary noPermissionChecker"
  by (simp add: hereditary_def noPermissionChecker_def permissionCheckerEntries_def)

lemma writePolicyGuard_noPermissionChecker:
  "emits noPermissionChecker (writePolicyGuard env model kind policies allows denies)"
  by (rule emitsI)
     (auto simp: writePolicyGuard_def writer_write_def helper_def noPermissionChecker_def
        permissionCheckerEntries_def isPermissionCheckerEntry_def
      split: if_splits option.splits sum.splits)

lemma writePermissionChecker_off:
  assumes "opt_generatePermissionChecker options \<noteq> Some (OBool True)"
  shows "writePermissionChecker options env model kind policies allows denies st = Inr st"
  using assms by (simp add: writePermissionChecker_def)

lemma writeCommonModelDef_noPermissionChecker:
  assumes "opt_generatePermissionChecker options \<noteq> Some (OBool True)"
  shows "emits noPermissionChecker (writeCommonModelDef options env model kind policies)"
proof -
  have "emits noPermissionChecker
          (\<lambda>st'. if kind \<noteq> PostUpdate
                  then writePermissionChecker options env model kind policies allows denies st'
                  else Inr st')" for allows denies
    by (rule emitsI)
       (auto simp: writePermissionChecker_off[OF assms] noPermissionChecker_def
          permissionCheckerEntries_def split: if_splits)
  then have "emits noPermissionChecker
          (andThen (writePolicyGuard env model kind policies allows denies)
             (\<lambda>st'. if kind \<noteq> PostUpdate
                     then writePermissionChecker options env model kind policies allows denies st'
                     else Inr st'))" for allows denies
    by (intro emits_andThen noPermissionChecker_hereditary writePolicyGuard_noPermissionChecker)
  then show ?thesis
    unfolding emits_def writeCommonModelDef_def Let_def by blast
qed

lemma writeCreateInputChecker_noPermissionChecker:
  "emits noPermissionChecker (writeCreateInputChecker env model)"
  by (rule emitsI)
     (auto simp: writeCreateInputChecker_def writer_write_def Let_def noPermissionChecker_def
        permissionCheckerEntries_def isPermissionCheckerEntry_def
      split: if_splits sum.splits)

lemma writePostUpdatePreValueSelector_noPermissionChecker:
  "emits noPermissionChecker (writePostUpdatePreValueSelector env model)"
  by (rule emitsI)
     (auto simp: writePostUpdatePreValueSelector_def writer_writeLine_def Let_def
        noPermissionChecker_def permissionCheckerEntries_def isPermissionCheckerEntry_def
      split: option.splits)

lemma noPermissionChecker_texts:
  "noPermissionChecker [Write ''read:'']" "noPermissionChecker [Write ''create:'']"
  "noPermissionChecker [Write ''update:'']" "noPermissionChecker [Write ''postUpdate:'']"
  "noPermissionChecker [Write ''delete:'']" "noPermissionChecker [Write ''modelLevel:'']"
  "noPermissionChecker [WriteLine '','']"
  by (simp_all add: noPermissionChecker_def permissionCheckerEntries_def isPermissionCheckerEntry_def)

lemma writeModelLevelDefs_noPermissionChecker:
  assumes "opt_generatePermissionChecker options \<noteq> Some (OBool True)"
  shows "emits noPermissionChecker (writeModelLevelDefs options env model)"
  unfolding writeModelLevelDefs_def Let_def writeModelReadDef_def writeModelCreateDef_def
    writeModelUpdateDef_def writeModelPostUpdateDef_def writeModelDeleteDef_def
  by (intro emits_steps emits_inlineBlock noPermissionChecker_hereditary)
     (auto intro!: emits_steps emits_inlineBlock emits_write emits_writeLine
        noPermissionChecker_hereditary noPermissionChecker_texts
        writeCommonModelDef_noPermissionChecker[OF assms]
        writeCreateInputChecker_noPermissionChecker
        writePostUpdatePreValueSelector_noPermissionChecker)

text \<open>
  C7. When the option \<open>generatePermissionChecker\<close> is anything but the boolean \<open>true\<close>
  (absent, \<open>false\<close>, or another value), \<open>writePermissionChecker\<close> writes nothing and
  generates nothing for any model and kind, and no text written in the \<open>modelLevel\<close>
  section of a model is a \<open>permissionChecker\<close> entry. So an entry is emitted only if
  the option is exactly \<open>true\<close>.
\<close>

theorem permission_checker_opt_in:
  assumes "opt_generatePermissionChecker options \<noteq> Some (OBool True)"
  shows "writePermissionChecker options env model kind policies allows denies (w, sf) = Inr (w, sf)
         \<and> (case writeModelLevelDefs options env model ([], sf) of
               Inl e \<Rightarrow> True
             | Inr r \<Rightarrow> permissionCheckerEntries (fst r) = [])"
proof -
  have "permissionCheckerEntries w' = []"
    if "writeModelLevelDefs options env model ([], sf) = Inr (w', sf')" for w' sf'
    using emitsD[OF writeModelLevelDefs_noPermissionChecker[OF assms] that]
    by (simp add: noPermissionChecker_def)
  then show ?thesis
    by (auto simp: writePermissionChecker_off[OF assms] split: sum.splits)
qed

lemma Note_modelLevel:
  "writeModelLevelDefs noOptions spec_sdk Note ([], []) =
     Inr ([Write ''modelLevel:'',
           InlineBlock
             [Write ''read:'', InlineBlock [Write ''guard: true,''], WriteLine '','',
              Write ''create:'',
              InlineBlock [Write ''guard: false,'', Write ''inputChecker: Note_create_input,''],
              WriteLine '','',
              Write ''update:'', InlineBlock [Write ''guard: false,''], WriteLine '','',
              Write ''postUpdate:'', InlineBlock [Write ''guard: true,''], WriteLine '','',
              Write ''delete:'', InlineBlock [Write ''guard: false,'']],
           WriteLine '',''],
          [FunctionDeclaration
             \<lparr> fn_name = ''Note_create_input'', fn_returnType = ''boolean'',
               fn_parameters = [(''input'', ''any''), (''context'', ''QueryContext'')],
               fn_statements = [''return false;''] \<rparr>])"
  by (simp add: writeModelLevelDefs_def writeModelReadDef_def writeModelCreateDef_def
        writeModelUpdateDef_def writeModelPostUpdateDef_def writeModelDeleteDef_def
        writeCommonModelDef_def writePolicyGuard_def writePermissionChecker_def
        writeCreateInputChecker_def writePostUpdatePreValueSelector_def
        canCheckCreateBasedOnInput_def generateCreateInputCheckerFunction_def
        createInputCheckerReturn_def writer_defs example_defs Let_def)

theorem permission_checker_opt_in_witness:
  "opt_generatePermissionChecker noOptions \<noteq> Some (OBool True)
   \<and> writePermissionChecker noOptions spec_sdk Note Read (analyzePolicies spec_sdk Note)
         [LiteralExpr (BooleanLiteral True)] [] ([Write ''guard: true,''], [])
       = Inr ([Write ''guard: true,''], [])
   \<and> permissionCheckerEntries
         [Write ''modelLevel:'',
          InlineBlock
            [Write ''read:'', InlineBlock [Write ''guard: true,''], WriteLine '','',
             Write ''create:'',
             InlineBlock [Write ''guard: false,'', Write ''inputChecker: Note_create_input,''],
             WriteLine '','',
             Write ''update:'', InlineBlock [Write ''guard: false,''], WriteLine '','',
             Write ''postUpdate:'', InlineBlock [Write ''guard: true,''], WriteLine '','',
             Write ''delete:'', InlineBlock [Write ''guard: false,'']],
          WriteLine '',''] = []"
proof -
  have off: "opt_generatePermissionChecker noOptions \<noteq> Some (OBool True)"
    by (simp add: noOptions_def)
  show ?thesis
    using permission_checker_opt_in[OF off, of spec_sdk Note Read "analyzePolicies spec_sdk Note"
            "[LiteralExpr (BooleanLiteral True)]" "[]" "[Write ''guard: true,'']" "[]"]
          off
    by (simp add: Note_modelLevel)
qed

subsection \<open>The throw of the field read checker generator\<close>

lemma noAbortI: "(\<And>st. f st \<noteq> Inl ShouldNotHappen) \<Longrightarrow> noAbort f"
  by (simp add: noAbort_def)

lemma noAbortD: "noAbort f \<Longrightarrow> f st \<noteq> Inl ShouldNotHappen"
  by (simp add: noAbort_def)

lemma helper_noAbort: "helper r \<noteq> Inl ShouldNotHappen"
  by (simp add: helper_def split: option.splits)

lemma noAbort_write: "noAbort (writer_write s)"
  by (simp add: noAbort_def writer_write_def)

lemma noAbort_writeLine: "noAbort (writer_writeLine s)"
  by (simp add: noAbort_def writer_writeLine_def)

lemma noAbort_skip: "noAbort skip"
  by (simp add: noAbort_def skip_def)

lemma noAbort_inlineBlock: "noAbort body \<Longrightarrow> noAbort (writer_inlineBlock body)"
  by (auto simp: noAbort_def writer_inlineBlock_def split: sum.splits)

lemma noAbort_block: "noAbort body \<Longrightarrow> noAbort (writer_block body)"
  by (auto simp: noAbort_def writer_block_def split: sum.splits)

lemma noAbort_forEach:
  assumes "\<And>x. x \<in> set xs \<Longrightarrow> noAbort (f x)"
  shows "noAbort (forEach f xs)"
  using assms
proof (induction xs)
  case Nil
  show ?case by (simp add: noAbort_def)
next
  case (Cons x xs)
  then have hd: "noAbort (f x)" and tl: "noAbort (forEach f xs)" by simp_all
  show ?case
  proof (rule noAbortI)
    fix st
    show "forEach f (x # xs) st \<noteq> Inl ShouldNotHappen"
      using noAbortD[OF hd, of st] noAbortD[OF tl]
      by (cases "f x st") auto
  qed
qed

lemma noAbort_steps:
  assumes "\<And>f. f \<in> set fs \<Longrightarrow> noAbort f"
  shows "noAbort (steps fs)"
proof -
  have "noAbort (forEach (\<lambda>f. f) fs)" using assms by (rule noAbort_forEach)
  moreover have "steps fs = forEach (\<lambda>f. f) fs" by (rule ext) (simp add: steps_def)
  ultimately show ?thesis by simp
qed

lemma noAbort_andThen: "noAbort f \<Longrightarrow> noAbort g \<Longrightarrow> noAbort (andThen f g)"
  by (auto simp: noAbort_def andThen_def split: sum.splits)

lemma fieldReadCheckerReturn_abort_iff:
  "fieldReadCheckerReturn env allows denies = Inl ShouldNotHappen \<longleftrightarrow> allows = [] \<and> denies = []"
  by (auto simp: fieldReadCheckerReturn_def helper_def split: option.splits sum.splits if_splits)

lemma generateFieldReadCheckerFunction_abort_iff:
  "generateFieldReadCheckerFunction env model sf field allows denies = Inl ShouldNotHappen
     \<longleftrightarrow> allows = [] \<and> denies = [] \<and> generateNormalizedAuthRef env model allows denies \<noteq> None"
  using fieldReadCheckerReturn_abort_iff[of env allows denies]
  by (cases "generateNormalizedAuthRef env model allows denies";
      cases "fieldReadCheckerReturn env allows denies")
     (auto simp: generateFieldReadCheckerFunction_def helper_def Let_def)

lemma fieldReadLoopBody_noAbort: "noAbort (fieldReadLoopBody env model field)"
proof (rule noAbortI)
  fix vs
  let ?allows = "getPolicyExpressions env (OfField field) Allow Read False"
  let ?denies = "getPolicyExpressions env (OfField field) Deny Read False"
  show "fieldReadLoopBody env model field vs \<noteq> Inl ShouldNotHappen"
  proof (cases "length ?denies = 0 \<and> length ?allows = 0")
    case True
    then show ?thesis by (simp add: fieldReadLoopBody_def)
  next
    case False
    then have "generateFieldReadCheckerFunction env model (snd vs) field ?allows ?denies
                 \<noteq> Inl ShouldNotHappen"
      by (auto simp: generateFieldReadCheckerFunction_abort_iff)
    with False show ?thesis
      by (auto simp: fieldReadLoopBody_def Let_def helper_def split: sum.splits option.splits)
  qed
qed

lemma writeEntries_noAbort: "noAbort (writeEntries r)"
  unfolding writeEntries_def by (rule noAbort_forEach) (rule noAbort_write)

lemma writeFieldReadSection_noAbort: "noAbort (writeFieldReadSection env vars)"
  unfolding writeFieldReadSection_def
  by (auto intro!: noAbort_steps noAbort_block noAbort_inlineBlock noAbort_write noAbort_writeLine
        noAbort_skip writeEntries_noAbort split: option.splits)

lemma writeFieldReadDef_noAbort: "noAbort (writeFieldReadDef env model)"
proof (rule noAbortI)
  fix st
  have loop: "forEach (fieldReadLoopBody env model) (dm_fields model) s \<noteq> Inl ShouldNotHappen" for s
    by (rule noAbortD[OF noAbort_forEach]) (rule fieldReadLoopBody_noAbort)
  show "writeFieldReadDef env model st \<noteq> Inl ShouldNotHappen"
    using loop noAbortD[OF writeFieldReadSection_noAbort]
    by (auto simp: writeFieldReadDef_def split: sum.splits)
qed

lemma fieldUpdateLoopBody_noAbort: "noAbort (fieldUpdateLoopBody env model field)"
  by (rule noAbortI)
     (auto simp: fieldUpdateLoopBody_def Let_def helper_def split: sum.splits option.splits)

lemma writeFieldUpdateSection_noAbort: "noAbort (writeFieldUpdateSection vars)"
  unfolding writeFieldUpdateSection_def
  by (auto intro!: noAbort_steps noAbort_block noAbort_inlineBlock noAbort_write noAbort_writeLine
        noAbort_skip writeEntries_noAbort)

lemma writeFieldUpdateDef_noAbort: "noAbort (writeFieldUpdateDef env model)"
proof (rule noAbortI)
  fix st
  have loop: "forEach (fieldUpdateLoopBody env model) (dm_fields model) s \<noteq> Inl ShouldNotHappen" for s
    by (rule noAbortD[OF noAbort_forEach]) (rule fieldUpdateLoopBody_noAbort)
  show "writeFieldUpdateDef env model st \<noteq> Inl ShouldNotHappen"
    using loop noAbortD[OF writeFieldUpdateSection_noAbort]
    by (auto simp: writeFieldUpdateDef_def split: sum.splits)
qed

lemma writeFieldLevelDefs_noAbort: "noAbort (writeFieldLevelDefs env model)"
  unfolding writeFieldLevelDefs_def
  by (auto intro!: noAbort_steps noAbort_inlineBlock noAbort_write noAbort_writeLine
        writeFieldReadDef_noAbort writeFieldUpdateDef_noAbort)

lemma writePolicyGuard_noAbort: "noAbort (writePolicyGuard env model kind policies allows denies)"
  by (rule noAbortI)
     (auto simp: writePolicyGuard_def writer_write_def helper_def split: option.splits sum.splits)

lemma writePermissionChecker_noAbort:
  "noAbort (writePermissionChecker options env model kind policies allows denies)"
  by (rule noAbortI)
     (auto simp: writePermissionChecker_def generatePermissionCheckerFunction_def writer_write_def
        helper_def Let_def split: option.splits sum.splits)

lemma writeCommonModelDef_noAbort: "noAbort (writeCommonModelDef options env model kind policies)"
  unfolding writeCommonModelDef_def Let_def
  by (intro noAbort_andThen writePolicyGuard_noAbort noAbortI)
     (simp add: noAbortD[OF writePermissionChecker_noAbort])

lemma createInputCheckerReturn_noAbort:
  "createInputCheckerReturn env allows denies \<noteq> Inl ShouldNotHappen"
  by (auto simp: createInputCheckerReturn_def helper_def Let_def split: option.splits sum.splits)

lemma writeCreateInputChecker_noAbort: "noAbort (writeCreateInputChecker env model)"
  using createInputCheckerReturn_noAbort
  by (intro noAbortI)
     (auto simp: writeCreateInputChecker_def generateCreateInputCheckerFunction_def writer_write_def
        helper_def Let_def split: option.splits sum.splits)

lemma writePostUpdatePreValueSelector_noAbort: "noAbort (writePostUpdatePreValueSelector env model)"
  by (rule noAbortI)
     (auto simp: writePostUpdatePreValueSelector_def writer_writeLine_def Let_def split: option.splits)

lemma writeModelLevelDefs_noAbort: "noAbort (writeModelLevelDefs options env model)"
  unfolding writeModelLevelDefs_def Let_def writeModelReadDef_def writeModelCreateDef_def
    writeModelUpdateDef_def writeModelPostUpdateDef_def writeModelDeleteDef_def
  by (auto intro!: noAbort_steps noAbort_inlineBlock noAbort_write noAbort_writeLine
        writeCommonModelDef_noAbort writeCreateInputChecker_noAbort
        writePostUpdatePreValueSelector_noAbort)

lemma writePolicy_noAbort: "noAbort (writePolicy options env models)"
  unfolding writePolicy_def
  by (auto intro!: noAbort_steps noAbort_inlineBlock noAbort_block noAbort_forEach noAbort_write
        noAbort_writeLine writeModelLevelDefs_noAbort writeFieldLevelDefs_noAbort)

lemma writeValidationMeta_noAbort: "noAbort (writeValidationMeta env models)"
  unfolding writeValidationMeta_def
  by (auto intro!: noAbort_steps noAbort_inlineBlock noAbort_forEach noAbort_write noAbort_writeLine)

lemma writeAuthSelector_noAbort: "noAbort (writeAuthSelector env models)"
  by (rule noAbortI) (auto simp: writeAuthSelector_def writer_write_def split: option.splits)

lemma generate_noAbort: "generate options env proj model outp \<noteq> Inl ShouldNotHappen"
proof -
  have "noAbort (writer_block
                   (steps [writePolicy options env models,
                           writeValidationMeta env models,
                           writeAuthSelector env models]))" for models
    by (auto intro!: noAbort_block noAbort_steps writePolicy_noAbort writeValidationMeta_noAbort
          writeAuthSelector_noAbort)
  from noAbortD[OF this] show ?thesis
    by (auto simp: generate_def Let_def split: sum.splits)
qed

text \<open>
  C10. The \<open>should not happen\<close> throw of \<open>generateFieldReadCheckerFunction\<close> is taken
  exactly when the function is called with neither allow nor deny rules (and the auth
  reference helper returned). \<open>writeFieldReadDef\<close> skips such fields before the call, so
  neither the loop body, nor \<open>writeFieldReadDef\<close>, nor a whole run of \<open>generate\<close> ever ends
  in that throw.
\<close>

theorem field_read_checker_throw_unreachable:
  "(generateFieldReadCheckerFunction env model sf field allows denies = Inl ShouldNotHappen
      \<longleftrightarrow> allows = [] \<and> denies = [] \<and> generateNormalizedAuthRef env model allows denies \<noteq> None)
   \<and> fieldReadLoopBody env model field vs \<noteq> Inl ShouldNotHappen
   \<and> writeFieldReadDef env model st \<noteq> Inl ShouldNotHappen
   \<and> generate options env proj zm outp \<noteq> Inl ShouldNotHappen"
  using generateFieldReadCheckerFunction_abort_iff[of env model sf field allows denies]
        noAbortD[OF fieldReadLoopBody_noAbort] noAbortD[OF writeFieldReadDef_noAbort]
        generate_noAbort
  by blast

theorem field_read_checker_throw_unreachable_witness:
  "generateFieldReadCheckerFunction spec_sdk Profile [] (plainField ''name'') [] [] = Inl ShouldNotHappen
   \<and> fieldReadLoopBody spec_sdk Profile (plainField ''name'')
         (\<lparr> fieldCheckers = [], overrideGuards = [], allFieldsAllows = [], allFieldsDenies = [] \<rparr>, [])
       = Inr (\<lparr> fieldCheckers = [], overrideGuards = [], allFieldsAllows = [], allFieldsDenies = [] \<rparr>, [])
   \<and> writeFieldReadDef spec_sdk Profile ([], []) \<noteq> Inl ShouldNotHappen
   \<and> generate noOptions spec_sdk emptyProject \<lparr> declarations = [DataModelD Profile] \<rparr> ''out''
       \<noteq> Inl ShouldNotHappen"
proof -
  have auth: "generateNormalizedAuthRef spec_sdk Profile [] [] \<noteq> None"
    by (simp add: spec_sdk_def spec_generateNormalizedAuthRef_def)
  have body: "fieldReadLoopBody spec_sdk Profile (plainField ''name'')
         (\<lparr> fieldCheckers = [], overrideGuards = [], allFieldsAllows = [], allFieldsDenies = [] \<rparr>, [])
       = Inr (\<lparr> fieldCheckers = [], overrideGuards = [], allFieldsAllows = [], allFieldsDenies = [] \<rparr>, [])"
    by (simp add: fieldReadLoopBody_def spec_sdk_def spec_getPolicyExpressions_def plainField_def)
  show ?thesis
    using field_read_checker_throw_unreachable[of spec_sdk Profile "[]" "plainField ''name''" "[]" "[]"
            "(\<lparr> fieldCheckers = [], overrideGuards = [], allFieldsAllows = [], allFieldsDenies = [] \<rparr>, [])"
            "([], [])" noOptions emptyProject "\<lparr> declarations = [DataModelD Profile] \<rparr>" "''out''"]
          auth body
    by simp
qed

subsection \<open>The read override guard of a field\<close>

lemma emailField_loop:
  "fieldReadLoopBody spec_sdk Profile emailField (noFieldVars, []) =
     Inr (\<lparr> fieldCheckers = [(''email'', ''Profile$email_read'')],
            overrideGuards = [(''email'', ''Profile$email$override_read'')],
            allFieldsAllows = [isTrue (fieldRef ''Profile'' ''public'' [])],
            allFieldsDenies = [isTrue (fieldRef ''Profile'' ''banned'' [])] \<rparr>,
          [FunctionDeclaration emailReadChecker, FunctionDeclaration emailOverrideGuard])"
  by (simp add: fieldReadLoopBody_def generateFieldReadCheckerFunction_def fieldReadCheckerReturn_def
        transformAll_def helper_def Let_def noFieldVars_def emailReadChecker_def emailOverrideGuard_def
        example_defs)

text \<open>
  C3, as stated, fails: the field \<open>email\<close> of the example model \<open>Profile\<close> has an
  override allow rule and a deny rule for reading. The override guard the generator emits
  for it is built from the allow rule and the deny rule, and it is not the guard built from
  the override allow rule alone.
\<close>

theorem override_guard_counterexample:
  "fieldReadLoopBody spec_sdk Profile emailField (noFieldVars, []) =
     Inr (\<lparr> fieldCheckers = [(''email'', ''Profile$email_read'')],
            overrideGuards = [(''email'', ''Profile$email$override_read'')],
            allFieldsAllows = [isTrue (fieldRef ''Profile'' ''public'' [])],
            allFieldsDenies = [isTrue (fieldRef ''Profile'' ''banned'' [])] \<rparr>,
          [FunctionDeclaration emailReadChecker, FunctionDeclaration emailOverrideGuard])
   \<and> overrideGuardFromAllowsOnly spec_sdk [FunctionDeclaration emailReadChecker] Profile emailField
       \<noteq> Some (emailOverrideGuard,
                [FunctionDeclaration emailReadChecker, FunctionDeclaration emailOverrideGuard])"
  using emailField_loop
  by (simp add: overrideGuardFromAllowsOnly_def emailReadChecker_def emailOverrideGuard_def
        example_defs Let_def)

text \<open>
  C3, amended. For a field with at least one override-marked read allow rule (override
  rules being among the field's read allow rules), when the loop of \<open>writeFieldReadDef\<close>
  gets through the field, the field's \<open>overrideGuard\<close> entry names the function that
  \<open>generateQueryGuardFunction\<close> returns for the override-marked allow rules as allow rules
  and all read deny rules of the field as deny rules, for that field and with the override
  flag; it is generated right after the field's read checker. Allow rules that are not
  marked override are not passed.
\<close>

theorem override_guard_from_override_allows_and_denies:
  assumes "fieldReadLoopBody env model field (vars, sf) = Inr (vars', sf')"
      and "getPolicyExpressions env (OfField field) Allow Read True \<noteq> []"
      and "set (getPolicyExpressions env (OfField field) Allow Read True)
             \<subseteq> set (getPolicyExpressions env (OfField field) Allow Read False)"
  shows "\<exists>checker sf1 guard.
           generateFieldReadCheckerFunction env model sf field
             (getPolicyExpressions env (OfField field) Allow Read False)
             (getPolicyExpressions env (OfField field) Deny Read False) = Inr (checker, sf1)
           \<and> generateQueryGuardFunction env sf1 model Read
               (getPolicyExpressions env (OfField field) Allow Read True)
               (getPolicyExpressions env (OfField field) Deny Read False) (Some field) True
               = Some (guard, sf')
           \<and> overrideGuards vars' = record_set (overrideGuards vars) (f_name field) (fn_name guard)"
proof -
  from assms(2,3) have "getPolicyExpressions env (OfField field) Allow Read False \<noteq> []"
    by auto
  with assms(1,2) show ?thesis
    by (auto simp: fieldReadLoopBody_def Let_def helper_def split: sum.splits option.splits if_splits)
qed

theorem override_guard_from_override_allows_and_denies_witness:
  "getPolicyExpressions spec_sdk (OfField emailField) Allow Read True
     = [isTrue (fieldRef ''Profile'' ''public'' [])]
   \<and> getPolicyExpressions spec_sdk (OfField emailField) Allow Read False
     = [isTrue (fieldRef ''Profile'' ''public'' [])]
   \<and> getPolicyExpressions spec_sdk (OfField emailField) Deny Read False
     = [isTrue (fieldRef ''Profile'' ''banned'' [])]
   \<and> generateQueryGuardFunction spec_sdk [FunctionDeclaration emailReadChecker] Profile Read
         [isTrue (fieldRef ''Profile'' ''public'' [])] [isTrue (fieldRef ''Profile'' ''banned'' [])]
         (Some emailField) True
       = Some (emailOverrideGuard,
               [FunctionDeclaration emailReadChecker, FunctionDeclaration emailOverrideGuard])"
proof -
  have rules:
    "getPolicyExpressions spec_sdk (OfField emailField) Allow Read True
       = [isTrue (fieldRef ''Profile'' ''public'' [])]"
    "getPolicyExpressions spec_sdk (OfField emailField) Allow Read False
       = [isTrue (fieldRef ''Profile'' ''public'' [])]"
    "getPolicyExpressions spec_sdk (OfField emailField) Deny Read False
       = [isTrue (fieldRef ''Profile'' ''banned'' [])]"
    by (simp_all add: spec_sdk_def spec_getPolicyExpressions_def emailField_def policyRule_def
          overrideRule_def isOverride_def)
  have checker: "generateFieldReadCheckerFunction spec_sdk Profile [] emailField
                   [isTrue (fieldRef ''Profile'' ''public'' [])]
                   [isTrue (fieldRef ''Profile'' ''banned'' [])]
                 = Inr (emailReadChecker, [FunctionDeclaration emailReadChecker])"
    by (simp add: generateFieldReadCheckerFunction_def fieldReadCheckerReturn_def
          transformAll_def helper_def Let_def emailReadChecker_def example_defs)
  have guard: "generateQueryGuardFunction spec_sdk [FunctionDeclaration emailReadChecker] Profile Read
         [isTrue (fieldRef ''Profile'' ''public'' [])] [isTrue (fieldRef ''Profile'' ''banned'' [])]
         (Some emailField) True
       = Some (emailOverrideGuard,
               [FunctionDeclaration emailReadChecker, FunctionDeclaration emailOverrideGuard])"
    by (simp add: emailReadChecker_def emailOverrideGuard_def example_defs Let_def)
  show ?thesis
    using override_guard_from_override_allows_and_denies[OF emailField_loop] rules checker guard
    by auto
qed

subsection \<open>The field-level sections\<close>

lemma record_set_keys: "fst ` set (record_set kvs k v) = insert k (fst ` set kvs)"
  by (induction kvs) auto

lemma writeEntries_eq: "writeEntries r (w, sf) = Inr (w @ entryLines r, sf)"
  unfolding writeEntries_def entryLines_def
  by (induction r arbitrary: w) (simp_all add: writer_write_def)

lemma fieldReadLoopBody_result:
  assumes "fieldReadLoopBody env model field (vars, sf) = Inr (vars', sf')"
  shows "(if hasFieldRules env Read field
          then (\<exists>c. fieldCheckers vars' = record_set (fieldCheckers vars) (f_name field) c)
               \<and> (overrideGuards vars' = overrideGuards vars
                    \<or> (\<exists>g. overrideGuards vars' = record_set (overrideGuards vars) (f_name field) g))
          else vars' = vars)"
  using assms
  by (auto simp: fieldReadLoopBody_def hasFieldRules_def Let_def helper_def
      split: sum.splits option.splits if_splits)

lemma fieldReadLoopBody_keys:
  assumes "fieldReadLoopBody env model field (vars, sf) = Inr (vars', sf')"
  shows "fst ` set (fieldCheckers vars') =
           (if hasFieldRules env Read field then {f_name field} else {}) \<union> fst ` set (fieldCheckers vars)"
    and "fst ` set (overrideGuards vars') \<subseteq>
           (if hasFieldRules env Read field then {f_name field} else {}) \<union> fst ` set (overrideGuards vars)"
proof -
  note r = fieldReadLoopBody_result[OF assms]
  show "fst ` set (fieldCheckers vars') =
           (if hasFieldRules env Read field then {f_name field} else {}) \<union> fst ` set (fieldCheckers vars)"
  proof (cases "hasFieldRules env Read field")
    case True
    with r obtain c where "fieldCheckers vars' = record_set (fieldCheckers vars) (f_name field) c"
      by auto
    with True show ?thesis by (simp add: record_set_keys)
  next
    case False
    with r show ?thesis by simp
  qed
  show "fst ` set (overrideGuards vars') \<subseteq>
           (if hasFieldRules env Read field then {f_name field} else {}) \<union> fst ` set (overrideGuards vars)"
  proof (cases "hasFieldRules env Read field")
    case True
    with r consider "overrideGuards vars' = overrideGuards vars"
      | g where "overrideGuards vars' = record_set (overrideGuards vars) (f_name field) g"
      by auto
    then show ?thesis
    proof cases
      case 1
      then show ?thesis by auto
    next
      case 2
      with True show ?thesis by (simp add: record_set_keys)
    qed
  next
    case False
    with r show ?thesis by simp
  qed
qed

lemma fieldReadLoop_keys:
  assumes "forEach (fieldReadLoopBody env model) fs (vars, sf) = Inr (vars', sf')"
  shows "fst ` set (fieldCheckers vars') =
           f_name ` set (filter (hasFieldRules env Read) fs) \<union> fst ` set (fieldCheckers vars)
         \<and> fst ` set (overrideGuards vars') \<subseteq>
           f_name ` set (filter (hasFieldRules env Read) fs) \<union> fst ` set (overrideGuards vars)"
  using assms
proof (induction fs arbitrary: vars sf)
  case Nil
  then show ?case by simp
next
  case (Cons field fs)
  from Cons.prems obtain vars1 sf1
    where s1: "fieldReadLoopBody env model field (vars, sf) = Inr (vars1, sf1)"
      and s2: "forEach (fieldReadLoopBody env model) fs (vars1, sf1) = Inr (vars', sf')"
    by (auto split: sum.splits)
  define F where "F = f_name ` set (filter (hasFieldRules env Read) fs)"
  define f where "f = (if hasFieldRules env Read field then {f_name field} else {})"
  define C0 where "C0 = fst ` set (fieldCheckers vars)"
  define C1 where "C1 = fst ` set (fieldCheckers vars1)"
  define C2 where "C2 = fst ` set (fieldCheckers vars')"
  define O0 where "O0 = fst ` set (overrideGuards vars)"
  define O1 where "O1 = fst ` set (overrideGuards vars1)"
  define O2 where "O2 = fst ` set (overrideGuards vars')"
  have hd: "f_name ` set (filter (hasFieldRules env Read) (field # fs)) = f \<union> F"
    by (simp add: f_def F_def)
  have c1: "C1 = f \<union> C0" and o1: "O1 \<subseteq> f \<union> O0"
    using fieldReadLoopBody_keys[OF s1] by (simp_all add: f_def C0_def C1_def O0_def O1_def)
  have c2: "C2 = F \<union> C1" and o2: "O2 \<subseteq> F \<union> O1"
    using Cons.IH[OF s2] by (simp_all add: F_def C1_def C2_def O1_def O2_def)
  from c1 c2 have "C2 = (f \<union> F) \<union> C0" by blast
  moreover from o1 o2 have "O2 \<subseteq> (f \<union> F) \<union> O0" by blast
  ultimately show ?case
    unfolding hd C0_def C2_def O0_def O2_def by simp
qed

lemma fieldUpdateLoopBody_result:
  assumes "fieldUpdateLoopBody env model field (vars, sf) = Inr (vars', sf')"
  shows "(if hasFieldRules env Update field
          then (\<exists>c. guards vars' = record_set (guards vars) (f_name field) c)
               \<and> (updateOverrideGuards vars' = updateOverrideGuards vars
                    \<or> (\<exists>g. updateOverrideGuards vars'
                              = record_set (updateOverrideGuards vars) (f_name field) g))
          else vars' = vars)"
  using assms
  by (auto simp: fieldUpdateLoopBody_def hasFieldRules_def Let_def helper_def
      split: sum.splits option.splits if_splits)

lemma fieldUpdateLoopBody_keys:
  assumes "fieldUpdateLoopBody env model field (vars, sf) = Inr (vars', sf')"
  shows "fst ` set (guards vars') =
           (if hasFieldRules env Update field then {f_name field} else {}) \<union> fst ` set (guards vars)"
    and "fst ` set (updateOverrideGuards vars') \<subseteq>
           (if hasFieldRules env Update field then {f_name field} else {})
           \<union> fst ` set (updateOverrideGuards vars)"
proof -
  note r = fieldUpdateLoopBody_result[OF assms]
  show "fst ` set (guards vars') =
           (if hasFieldRules env Update field then {f_name field} else {}) \<union> fst ` set (guards vars)"
  proof (cases "hasFieldRules env Update field")
    case True
    with r obtain c where "guards vars' = record_set (guards vars) (f_name field) c"
      by auto
    with True show ?thesis by (simp add: record_set_keys)
  next
    case False
    with r show ?thesis by simp
  qed
  show "fst ` set (updateOverrideGuards vars') \<subseteq>
           (if hasFieldRules env Update field then {f_name field} else {})
           \<union> fst ` set (updateOverrideGuards vars)"
  proof (cases "hasFieldRules env Update field")
    case True
    with r consider "updateOverrideGuards vars' = updateOverrideGuards vars"
      | g where "updateOverrideGuards vars' = record_set (updateOverrideGuards vars) (f_name field) g"
      by auto
    then show ?thesis
    proof cases
      case 1
      then show ?thesis by auto
    next
      case 2
      with True show ?thesis by (simp add: record_set_keys)
    qed
  next
    case False
    with r show ?thesis by simp
  qed
qed

lemma fieldUpdateLoop_keys:
  assumes "forEach (fieldUpdateLoopBody env model) fs (vars, sf) = Inr (vars', sf')"
  shows "fst ` set (guards vars') =
           f_name ` set (filter (hasFieldRules env Update) fs) \<union> fst ` set (guards vars)
         \<and> fst ` set (updateOverrideGuards vars') \<subseteq>
           f_name ` set (filter (hasFieldRules env Update) fs) \<union> fst ` set (updateOverrideGuards vars)"
  using assms
proof (induction fs arbitrary: vars sf)
  case Nil
  then show ?case by simp
next
  case (Cons field fs)
  from Cons.prems obtain vars1 sf1
    where s1: "fieldUpdateLoopBody env model field (vars, sf) = Inr (vars1, sf1)"
      and s2: "forEach (fieldUpdateLoopBody env model) fs (vars1, sf1) = Inr (vars', sf')"
    by (auto split: sum.splits)
  define F where "F = f_name ` set (filter (hasFieldRules env Update) fs)"
  define f where "f = (if hasFieldRules env Update field then {f_name field} else {})"
  define C0 where "C0 = fst ` set (guards vars)"
  define C1 where "C1 = fst ` set (guards vars1)"
  define C2 where "C2 = fst ` set (guards vars')"
  define O0 where "O0 = fst ` set (updateOverrideGuards vars)"
  define O1 where "O1 = fst ` set (updateOverrideGuards vars1)"
  define O2 where "O2 = fst ` set (updateOverrideGuards vars')"
  have hd: "f_name ` set (filter (hasFieldRules env Update) (field # fs)) = f \<union> F"
    by (simp add: f_def F_def)
  have c1: "C1 = f \<union> C0" and o1: "O1 \<subseteq> f \<union> O0"
    using fieldUpdateLoopBody_keys[OF s1] by (simp_all add: f_def C0_def C1_def O0_def O1_def)
  have c2: "C2 = F \<union> C1" and o2: "O2 \<subseteq> F \<union> O1"
    using Cons.IH[OF s2] by (simp_all add: F_def C1_def C2_def O1_def O2_def)
  from c1 c2 have "C2 = (f \<union> F) \<union> C0" by blast
  moreover from o1 o2 have "O2 \<subseteq> (f \<union> F) \<union> O0" by blast
  ultimately show ?case
    unfolding hd C0_def C2_def O0_def O2_def by simp
qed

lemma writeFieldReadSection_eq:
  "writeFieldReadSection env vars (w, sf) =
     Inr (w @ (if fieldCheckers vars = [] \<and> overrideGuards vars = [] then []
               else [Write ''read:'',
                     Block ((if fieldCheckers vars = [] then []
                             else [Write ''checker:'', InlineBlock (entryLines (fieldCheckers vars)),
                                   WriteLine '','']
                                  @ (case generateSelectForRules env
                                            (allFieldsAllows vars @ allFieldsDenies vars) False of
                                       Some sel \<Rightarrow> [Write (''selector: '' @ JSON_stringify sel @ '','')]
                                     | None \<Rightarrow> []))
                            @ (if overrideGuards vars = [] then []
                               else [Write ''overrideGuard:'',
                                     InlineBlock (entryLines (overrideGuards vars)), WriteLine '',''])),
                     WriteLine '','']),
          sf)"
  by (simp add: writeFieldReadSection_def writer_defs writeEntries_eq split: option.splits)

lemma writeFieldUpdateSection_eq:
  "writeFieldUpdateSection vars (w, sf) =
     Inr (w @ (if guards vars = [] \<and> updateOverrideGuards vars = [] then []
               else [Write ''update:'',
                     Block ((if guards vars = [] then []
                             else [Write ''guard:'', InlineBlock (entryLines (guards vars)),
                                   WriteLine '',''])
                            @ (if updateOverrideGuards vars = [] then []
                               else [Write ''overrideGuard:'',
                                     InlineBlock (entryLines (updateOverrideGuards vars)),
                                     WriteLine '','']))]),
          sf)"
  by (simp add: writeFieldUpdateSection_def writer_defs writeEntries_eq)

text \<open>
  C9. When \<open>writeFieldReadDef\<close> returns, it has written the \<open>read\<close> section of the
  model's \<open>fieldLevel\<close> object exactly when some field of the model carries a read allow
  or deny rule, and nothing otherwise. The keys of the section's \<open>checker\<close> object are
  exactly the names of the fields that carry such a rule, and the keys of its
  \<open>overrideGuard\<close> object are among them, so a field with neither an allow nor a deny
  rule contributes no entry. The same holds of \<open>writeFieldUpdateDef\<close>, the \<open>update\<close>
  section, its \<open>guard\<close> object and the update rules.
\<close>

theorem field_level_sections:
  "(writeFieldReadDef env model (w, sf) = Inr (w', sf') \<longrightarrow>
      (\<exists>checkers overrides selector.
         w' = w @ (if ruledFields env Read model = [] then []
                   else [Write ''read:'',
                         Block ([Write ''checker:'', InlineBlock (entryLines checkers), WriteLine '','']
                                @ selector
                                @ (if overrides = [] then []
                                   else [Write ''overrideGuard:'', InlineBlock (entryLines overrides),
                                         WriteLine '',''])),
                         WriteLine '',''])
         \<and> fst ` set checkers = f_name ` set (ruledFields env Read model)
         \<and> fst ` set overrides \<subseteq> f_name ` set (ruledFields env Read model)
         \<and> (selector = [] \<or> (\<exists>sel. selector = [Write (''selector: '' @ JSON_stringify sel @ '','')]))))
   \<and> (writeFieldUpdateDef env model (w, sf) = Inr (w'', sf'') \<longrightarrow>
      (\<exists>guardEntries overrides.
         w'' = w @ (if ruledFields env Update model = [] then []
                    else [Write ''update:'',
                          Block ([Write ''guard:'', InlineBlock (entryLines guardEntries), WriteLine '','']
                                 @ (if overrides = [] then []
                                    else [Write ''overrideGuard:'', InlineBlock (entryLines overrides),
                                          WriteLine '','']))])
         \<and> fst ` set guardEntries = f_name ` set (ruledFields env Update model)
         \<and> fst ` set overrides \<subseteq> f_name ` set (ruledFields env Update model)))"
proof (intro conjI impI)
  assume r: "writeFieldReadDef env model (w, sf) = Inr (w', sf')"
  then obtain vars sf1
    where loop: "forEach (fieldReadLoopBody env model) (dm_fields model)
                   (\<lparr> fieldCheckers = [], overrideGuards = [], allFieldsAllows = [],
                      allFieldsDenies = [] \<rparr>, sf) = Inr (vars, sf1)"
      and out: "writeFieldReadSection env vars (w, sf1) = Inr (w', sf')"
    by (auto simp: writeFieldReadDef_def split: sum.splits)
  from fieldReadLoop_keys[OF loop]
  have c: "fst ` set (fieldCheckers vars) = f_name ` set (ruledFields env Read model)"
    and o: "fst ` set (overrideGuards vars) \<subseteq> f_name ` set (ruledFields env Read model)"
    by (simp_all add: ruledFields_def)
  from c have ce: "fieldCheckers vars = [] \<longleftrightarrow> ruledFields env Read model = []"
    by (metis image_is_empty set_empty)
  from o have oe: "ruledFields env Read model = [] \<Longrightarrow> overrideGuards vars = []"
    by simp
  define selector where
    "selector = (case generateSelectForRules env (allFieldsAllows vars @ allFieldsDenies vars) False of
                   Some sel \<Rightarrow> [Write (''selector: '' @ JSON_stringify sel @ '','')]
                 | None \<Rightarrow> [])"
  have w': "w' = w @ (if ruledFields env Read model = [] then []
                   else [Write ''read:'',
                         Block ([Write ''checker:'', InlineBlock (entryLines (fieldCheckers vars)),
                                 WriteLine '','']
                                @ selector
                                @ (if overrideGuards vars = [] then []
                                   else [Write ''overrideGuard:'',
                                         InlineBlock (entryLines (overrideGuards vars)),
                                         WriteLine '',''])),
                         WriteLine '',''])"
  proof (cases "ruledFields env Read model = []")
    case True
    with ce oe out show ?thesis by (simp add: writeFieldReadSection_eq)
  next
    case False
    with ce out show ?thesis by (simp add: writeFieldReadSection_eq selector_def)
  qed
  have s: "selector = [] \<or> (\<exists>sel. selector = [Write (''selector: '' @ JSON_stringify sel @ '','')])"
    by (auto simp: selector_def split: option.splits)
  from w' c o s
  show "\<exists>checkers overrides selector.
         w' = w @ (if ruledFields env Read model = [] then []
                   else [Write ''read:'',
                         Block ([Write ''checker:'', InlineBlock (entryLines checkers), WriteLine '','']
                                @ selector
                                @ (if overrides = [] then []
                                   else [Write ''overrideGuard:'', InlineBlock (entryLines overrides),
                                         WriteLine '',''])),
                         WriteLine '',''])
         \<and> fst ` set checkers = f_name ` set (ruledFields env Read model)
         \<and> fst ` set overrides \<subseteq> f_name ` set (ruledFields env Read model)
         \<and> (selector = [] \<or> (\<exists>sel. selector = [Write (''selector: '' @ JSON_stringify sel @ '','')]))"
    by (intro exI[of _ "fieldCheckers vars"] exI[of _ "overrideGuards vars"] exI[of _ selector] conjI)
next
  assume r: "writeFieldUpdateDef env model (w, sf) = Inr (w'', sf'')"
  then obtain vars sf1
    where loop: "forEach (fieldUpdateLoopBody env model) (dm_fields model)
                   (\<lparr> guards = [], updateOverrideGuards = [] \<rparr>, sf) = Inr (vars, sf1)"
      and out: "writeFieldUpdateSection vars (w, sf1) = Inr (w'', sf'')"
    by (auto simp: writeFieldUpdateDef_def split: sum.splits)
  from fieldUpdateLoop_keys[OF loop]
  have c: "fst ` set (guards vars) = f_name ` set (ruledFields env Update model)"
    and o: "fst ` set (updateOverrideGuards vars) \<subseteq> f_name ` set (ruledFields env Update model)"
    by (simp_all add: ruledFields_def)
  from c have ce: "guards vars = [] \<longleftrightarrow> ruledFields env Update model = []"
    by (metis image_is_empty set_empty)
  from o have oe: "ruledFields env Update model = [] \<Longrightarrow> updateOverrideGuards vars = []"
    by simp
  have w'': "w'' = w @ (if ruledFields env Update model = [] then []
                    else [Write ''update:'',
                          Block ([Write ''guard:'', InlineBlock (entryLines (guards vars)), WriteLine '','']
                                 @ (if updateOverrideGuards vars = [] then []
                                    else [Write ''overrideGuard:'',
                                          InlineBlock (entryLines (updateOverrideGuards vars)),
                                          WriteLine '','']))])"
  proof (cases "ruledFields env Update model = []")
    case True
    with ce oe out show ?thesis by (simp add: writeFieldUpdateSection_eq)
  next
    case False
    with ce out show ?thesis by (simp add: writeFieldUpdateSection_eq)
  qed
  from w'' c o
  show "\<exists>guardEntries overrides.
         w'' = w @ (if ruledFields env Update model = [] then []
                    else [Write ''update:'',
                          Block ([Write ''guard:'', InlineBlock (entryLines guardEntries), WriteLine '','']
                                 @ (if overrides = [] then []
                                    else [Write ''overrideGuard:'', InlineBlock (entryLines overrides),
                                          WriteLine '','']))])
         \<and> fst ` set guardEntries = f_name ` set (ruledFields env Update model)
         \<and> fst ` set overrides \<subseteq> f_name ` set (ruledFields env Update model)"
    by (intro exI[of _ "guards vars"] exI[of _ "updateOverrideGuards vars"] conjI)
qed

lemma Profile_field_read:
  "writeFieldReadDef spec_sdk Profile ([], []) =
     Inr ([Write ''read:'',
           Block [Write ''checker:'',
                  InlineBlock [Write ''email: Profile$email_read,'', Write ''phone: Profile$phone_read,''],
                  WriteLine '','',
                  Write (''selector: ''
                         @ JSON_stringify (SelObj [(''public'', SelTrue), (''id'', SelTrue),
                                                   (''banned'', SelTrue)])
                         @ '',''),
                  Write ''overrideGuard:'',
                  InlineBlock [Write ''email: Profile$email$override_read,''],
                  WriteLine '',''],
           WriteLine '',''],
          [FunctionDeclaration emailReadChecker, FunctionDeclaration emailOverrideGuard,
           FunctionDeclaration
             \<lparr> fn_name = ''Profile$phone_read'', fn_returnType = ''boolean'',
               fn_parameters = [(''input'', ''any''), (''context'', ''QueryContext'')],
               fn_statements = [''const user: any = context.user ?? null;'',
                                ''return ((user?.id == input?.id))''] \<rparr>])"
  by (simp add: writeFieldReadDef_def writeFieldReadSection_eq entryLines_def fieldReadLoopBody_def
        generateFieldReadCheckerFunction_def fieldReadCheckerReturn_def transformAll_def helper_def
        Let_def emailReadChecker_def emailOverrideGuard_def example_defs)

lemma Profile_field_update: "writeFieldUpdateDef spec_sdk Profile ([], []) = Inr ([], [])"
  by (simp add: writeFieldUpdateDef_def writeFieldUpdateSection_eq fieldUpdateLoopBody_def
        Let_def example_defs)

theorem field_level_sections_witness:
  "writeFieldReadDef spec_sdk Profile ([], []) =
     Inr ([Write ''read:'',
           Block [Write ''checker:'',
                  InlineBlock [Write ''email: Profile$email_read,'', Write ''phone: Profile$phone_read,''],
                  WriteLine '','',
                  Write (''selector: ''
                         @ JSON_stringify (SelObj [(''public'', SelTrue), (''id'', SelTrue),
                                                   (''banned'', SelTrue)])
                         @ '',''),
                  Write ''overrideGuard:'',
                  InlineBlock [Write ''email: Profile$email$override_read,''],
                  WriteLine '',''],
           WriteLine '',''],
          [FunctionDeclaration emailReadChecker, FunctionDeclaration emailOverrideGuard,
           FunctionDeclaration
             \<lparr> fn_name = ''Profile$phone_read'', fn_returnType = ''boolean'',
               fn_parameters = [(''input'', ''any''), (''context'', ''QueryContext'')],
               fn_statements = [''const user: any = context.user ?? null;'',
                                ''return ((user?.id == input?.id))''] \<rparr>])
   \<and> ruledFields spec_sdk Read Profile = [emailField, phoneField]
   \<and> writeFieldUpdateDef spec_sdk Profile ([], []) = Inr ([], [])
   \<and> ruledFields spec_sdk Update Profile = []"
  (is "_ = Inr (?out, ?fns) \<and> _")
proof -
  have ruled: "ruledFields spec_sdk Read Profile = [emailField, phoneField]"
              "ruledFields spec_sdk Update Profile = []"
    by (simp_all add: ruledFields_def hasFieldRules_def spec_sdk_def spec_getPolicyExpressions_def
          Profile_def emailField_def phoneField_def plainField_def policyRule_def overrideRule_def)
  show ?thesis
    using field_level_sections[of spec_sdk Profile "[]" "[]" ?out ?fns "[]" "[]"]
          Profile_field_read Profile_field_update ruled
    by simp
qed

subsection \<open>The generated file of the example schema\<close>

lemma Post_entries:
  "steps [writePolicy noOptions spec_sdk [Post], writeValidationMeta spec_sdk [Post]]
     ([], writeImports noOptions spec_sdk PostSchema ''out'' [Statements ''/* eslint-disable */''])
   = Inr (PostPolicyEntries, PostFunctions)"
  by (simp add: writePolicy_def writeValidationMeta_def writeImports_def writeFieldLevelDefs_def
        writeFieldReadDef_def writeFieldReadSection_eq writeFieldUpdateDef_def writeFieldUpdateSection_eq
        fieldReadLoopBody_def fieldUpdateLoopBody_def
        writeModelLevelDefs_def writeModelReadDef_def writeModelCreateDef_def
        writeModelUpdateDef_def writeModelPostUpdateDef_def writeModelDeleteDef_def
        writeCommonModelDef_def writePolicyGuard_def writePermissionChecker_def
        writeCreateInputChecker_def writePostUpdatePreValueSelector_def
        canCheckCreateBasedOnInput_def generateCreateInputCheckerFunction_def
        createInputCheckerReturn_def transformAll_def writer_defs example_defs Let_def
        PostSchema_def PostPolicyEntries_def PostFunctions_def queryGuard_def)

lemma steps_snoc:
  "steps (fs @ [g]) st = (case steps fs st of Inl e \<Rightarrow> Inl e | Inr st' \<Rightarrow> g st')"
  unfolding steps_def
  by (induction fs arbitrary: st) (auto split: sum.splits)

lemma steps_three:
  "steps [a, b, c] st = (case steps [a, b] st of Inl e \<Rightarrow> Inl e | Inr st' \<Rightarrow> c st')"
  using steps_snoc[of "[a, b]" c st] by simp

lemma Post_authSelector: "generateAuthSelector spec_sdk [Post] = Some (SelObj [(''id'', SelTrue)])"
  by (simp add: generateAuthSelector_def collectAuthRules_def allExpressions_def example_defs Let_def)

lemma Post_generate:
  "generate noOptions spec_sdk proj PostSchema ''out'' =
     Inr (proj\<lparr> sourceFiles := (sourceFiles proj)(''out/policy.ts'' \<mapsto> PostPolicyFile) \<rparr>)"
proof -
  have models: "getDataModels spec_sdk PostSchema = [Post]"
    by (simp add: spec_sdk_def PostSchema_def)
  have fpath: "path_join spec_sdk ''out'' ''policy.ts'' = ''out/policy.ts''"
    by (simp add: spec_sdk_def)
  have body: "writer_block
                (steps [writePolicy noOptions spec_sdk [Post], writeValidationMeta spec_sdk [Post],
                        writeAuthSelector spec_sdk [Post]])
                ([], writeImports noOptions spec_sdk PostSchema ''out'' [Statements ''/* eslint-disable */''])
              = Inr ([Block (PostPolicyEntries
                       @ [Write (''authSelector: '' @ JSON_stringify (SelObj [(''id'', SelTrue)]) @ '','')])],
                     PostFunctions)"
    by (simp add: steps_three Post_entries writer_block_def writeAuthSelector_def Post_authSelector
          writer_write_def)
  show ?thesis
    unfolding generate_def models fpath Let_def body
    by (simp add: PostPolicyFile_def noOptions_def)
qed

subsection \<open>The auth selector\<close>

lemma allExpressions_iff:
  "rule \<in> set (allExpressions m) \<longleftrightarrow>
     (\<exists>a. isPolicyRuleOf m a \<and> length (attr_args a) \<ge> 2 \<and> rule = arg_value (attr_args a ! 1))"
proof
  assume "rule \<in> set (allExpressions m)"
  then obtain a where a: "rule = arg_value (attr_args a ! 1)" "length (attr_args a) > 1"
      and src: "(a \<in> set (dm_attributes m) \<and> attr_decl a \<in> set [''@@allow'', ''@@deny''])
                \<or> (a \<in> set (concat (map f_attributes (dm_fields m)))
                    \<and> attr_decl a \<in> set [''@allow'', ''@deny''])"
    unfolding allExpressions_def Let_def by auto
  from src have "isPolicyRuleOf m a"
    unfolding isPolicyRuleOf_def by auto
  with a show "\<exists>a. isPolicyRuleOf m a \<and> length (attr_args a) \<ge> 2 \<and> rule = arg_value (attr_args a ! 1)"
    by (intro exI[of _ a]) simp
next
  assume "\<exists>a. isPolicyRuleOf m a \<and> length (attr_args a) \<ge> 2 \<and> rule = arg_value (attr_args a ! 1)"
  then obtain a where p: "isPolicyRuleOf m a" and l: "length (attr_args a) \<ge> 2"
      and r: "rule = arg_value (attr_args a ! 1)"
    by blast
  from p have "a \<in> set (filter (\<lambda>attr. attr_decl attr \<in> set [''@@allow'', ''@@deny'']) (dm_attributes m)
                        @ filter (\<lambda>attr. attr_decl attr \<in> set [''@allow'', ''@deny''])
                            (concat (map f_attributes (dm_fields m))))"
    unfolding isPolicyRuleOf_def by auto
  with l have "a \<in> set (filter (\<lambda>attr. length (attr_args attr) > 1)
                 (filter (\<lambda>attr. attr_decl attr \<in> set [''@@allow'', ''@@deny'']) (dm_attributes m)
                  @ filter (\<lambda>attr. attr_decl attr \<in> set [''@allow'', ''@deny''])
                      (concat (map f_attributes (dm_fields m)))))"
    by simp
  then have "arg_value (attr_args a ! 1) \<in> set (allExpressions m)"
    unfolding allExpressions_def Let_def by (simp only: set_map) (rule imageI)
  with r show "rule \<in> set (allExpressions m)" by simp
qed

lemma collectAuthRules_nonempty:
  "collectAuthRules m \<noteq> [] \<longleftrightarrow> (\<exists>rule \<in> set (allExpressions m). usesAuthMember rule)"
  unfolding collectAuthRules_def usesAuthMember_def
  by (auto simp: list_ex_iff filter_empty_conv)

lemma authRules_nonempty:
  "concat (map collectAuthRules models) \<noteq> [] \<longleftrightarrow> someRuleUsesAuthMember models"
proof -
  have "concat (map collectAuthRules models) \<noteq> [] \<longleftrightarrow> (\<exists>m \<in> set models. collectAuthRules m \<noteq> [])"
    by (induction models) auto
  also have "\<dots> \<longleftrightarrow> someRuleUsesAuthMember models"
    unfolding someRuleUsesAuthMember_def collectAuthRules_nonempty
    by (metis allExpressions_iff)
  finally show ?thesis .
qed

text \<open>
  C6. In the file that \<open>generate\<close> produces, the policy object is the per-model part
  (the policy and validation sections, written model by model) followed by the
  \<open>authSelector\<close> entry. The entry is written once, after all models, from
  \<open>generateAuthSelector\<close> applied to the complete list of data models, and it is present
  exactly when some policy rule of some model (a model-level \<open>@@allow\<close>/\<open>@@deny\<close> or a
  field-level \<open>@allow\<close>/\<open>@deny\<close> attribute with at least two arguments) contains a member
  access on an \<open>auth()\<close> invocation. The selector generator is not among the sources; the
  theorem supposes of it that it returns a selector for the \<open>auth()\<close> member accesses of
  the schema when there is at least one.
\<close>

theorem auth_selector_single_pass:
  assumes "generateSelectForRules env (concat (map collectAuthRules (getDataModels env zm))) True = None
             \<Longrightarrow> concat (map collectAuthRules (getDataModels env zm)) = []"
      and "generate options env proj zm outp = Inr proj'"
  shows "\<exists>perModel fns authEntry.
           steps [writePolicy options env (getDataModels env zm),
                  writeValidationMeta env (getDataModels env zm)]
             ([], writeImports options env zm outp [Statements ''/* eslint-disable */''])
             = Inr (perModel, fns)
           \<and> sourceFiles proj' (path_join env outp ''policy.ts'')
               = Some (fns @ [VariableStatement ''const'' ''policy'' ''PolicyDef''
                                [Block (perModel @ authEntry)],
                              Statements ''export default policy''])
           \<and> authEntry = (case generateAuthSelector env (getDataModels env zm) of
                             Some authSelector \<Rightarrow>
                               [Write (''authSelector: '' @ JSON_stringify authSelector @ '','')]
                           | None \<Rightarrow> [])
           \<and> (authEntry \<noteq> [] \<longleftrightarrow> someRuleUsesAuthMember (getDataModels env zm))"
proof -
  let ?models = "getDataModels env zm"
  let ?sf = "writeImports options env zm outp [Statements ''/* eslint-disable */'']"
  let ?entry = "case generateAuthSelector env ?models of
                  Some authSelector \<Rightarrow> [Write (''authSelector: '' @ JSON_stringify authSelector @ '','')]
                | None \<Rightarrow> []"
  from assms(2) obtain body fns'
    where blk: "writer_block (steps [writePolicy options env ?models, writeValidationMeta env ?models,
                                      writeAuthSelector env ?models]) ([], ?sf) = Inr (body, fns')"
      and stored: "sourceFiles proj' (path_join env outp ''policy.ts'')
                   = Some (fns' @ [VariableStatement ''const'' ''policy'' ''PolicyDef'' body,
                                   Statements ''export default policy''])"
    by (auto simp: generate_def Let_def split: sum.splits)
  from blk obtain inner
    where inner: "steps [writePolicy options env ?models, writeValidationMeta env ?models,
                         writeAuthSelector env ?models] ([], ?sf) = Inr (inner, fns')"
      and body: "body = [Block inner]"
    by (auto simp: writer_block_def split: sum.splits)
  from inner obtain perModel fns
    where per: "steps [writePolicy options env ?models, writeValidationMeta env ?models] ([], ?sf)
                  = Inr (perModel, fns)"
      and auth: "writeAuthSelector env ?models (perModel, fns) = Inr (inner, fns')"
    unfolding steps_three by (auto split: sum.splits)
  from auth have i: "inner = perModel @ ?entry" and f: "fns' = fns"
    by (auto simp: writeAuthSelector_def writer_write_def split: option.splits)
  have "generateAuthSelector env ?models \<noteq> None \<longleftrightarrow> concat (map collectAuthRules ?models) \<noteq> []"
    using assms(1) by (auto simp: generateAuthSelector_def Let_def)
  then have e: "?entry \<noteq> [] \<longleftrightarrow> someRuleUsesAuthMember ?models"
    unfolding authRules_nonempty by (auto split: option.splits)
  from per stored body i f e show ?thesis
    by (intro exI[of _ perModel] exI[of _ fns] exI[of _ ?entry]) simp
qed

theorem auth_selector_single_pass_witness:
  "generateSelectForRules spec_sdk (concat (map collectAuthRules (getDataModels spec_sdk PostSchema))) True
     = Some (SelObj [(''id'', SelTrue)])
   \<and> generate noOptions spec_sdk emptyProject PostSchema ''out''
     = Inr (emptyProject\<lparr> sourceFiles := (sourceFiles emptyProject)(''out/policy.ts'' \<mapsto> PostPolicyFile) \<rparr>)
   \<and> someRuleUsesAuthMember (getDataModels spec_sdk PostSchema)
   \<and> generateAuthSelector spec_sdk (getDataModels spec_sdk PostSchema) = Some (SelObj [(''id'', SelTrue)])"
proof -
  have models: "getDataModels spec_sdk PostSchema = [Post]"
    by (simp add: spec_sdk_def PostSchema_def)
  have sel: "generateSelectForRules spec_sdk
               (concat (map collectAuthRules (getDataModels spec_sdk PostSchema))) True
             = Some (SelObj [(''id'', SelTrue)])"
    unfolding models
    by (simp add: collectAuthRules_def allExpressions_def example_defs Let_def)
  have hyp: "generateSelectForRules spec_sdk
               (concat (map collectAuthRules (getDataModels spec_sdk PostSchema))) True = None
             \<Longrightarrow> concat (map collectAuthRules (getDataModels spec_sdk PostSchema)) = []"
    by (simp add: sel)
  from auth_selector_single_pass[OF hyp Post_generate[of emptyProject]]
  have "someRuleUsesAuthMember (getDataModels spec_sdk PostSchema)"
    by (auto simp: models Post_authSelector)
  with sel Post_generate[of emptyProject] Post_authSelector models show ?thesis
    by simp
qed

end
